theory Spec2Isabelle
  imports Complex_Main "HOL-Library.Log_Nat"
begin

section \<open>Smart mirror: the widgets of smartmirror.py\<close>

text \<open>
  The program is a tkinter window with three widgets, each a subclass of \<open>Frame\<close> that
  polls a data source, compares what it got with the values it cached at the previous
  poll, reconfigures the labels that changed and reschedules itself with \<open>after\<close>.

  The embedding makes the effects of one poll explicit:
  \<^item> a widget is a record: the fields assigned in \<open>__init__\<close>, the text (or image) each of
    its labels shows, the trace of \<open>config\<close> calls made on its labels and the trace of
    \<open>after\<close> calls;
  \<^item> what the outside world answers during a poll (the formatted time, the HTTP replies,
    the parsed feed) is an argument of the poll;
  \<^item> an exception is a value of type \<open>error\<close>, and a step that can raise returns
    \<open>error + 'a\<close> with \<open>Inl\<close> for the raised exception.

  The calls into tkinter and PIL (\<open>config\<close>, \<open>pack\<close>, \<open>destroy\<close>, \<open>Image.open\<close> on the
  bundled assets) are taken to succeed. What is written to stdout and stderr
  (\<open>print\<close>, \<open>traceback.print_exc\<close>) is not part of the model.
\<close>

subsection \<open>Frames, labels and timers\<close>

datatype label =
    time_lbl | day_of_wk_lbl | date_lbl
  | temperature_lbl | icon_lbl | currently_lbl | forecast_lbl | actual_location_lbl

datatype callback = Tick | Get_weather | Get_headlines

text \<open>
  \<open>labels\<close> is what each label of the frame shows: its \<open>text\<close> option, or for \<open>icon_lbl\<close>
  its \<open>image\<close> option, written as the path of the asset the photo was made from and
  \<open>''''\<close> for no image. A label created without a text shows \<open>''''\<close>.
\<close>

record frame =
  labels :: "label \<Rightarrow> string"
  config_calls :: "(label \<times> string) list"
  after_calls :: "(nat \<times> callback) list"

definition config :: "label \<Rightarrow> string \<Rightarrow> 'a frame_scheme \<Rightarrow> 'a frame_scheme" where
  "config l v self =
     self\<lparr>labels := (labels self)(l := v), config_calls := config_calls self @ [(l, v)]\<rparr>"

definition after :: "nat \<Rightarrow> callback \<Rightarrow> 'a frame_scheme \<Rightarrow> 'a frame_scheme" where
  "after ms f self = self\<lparr>after_calls := after_calls self @ [(ms, f)]\<rparr>"

subsection \<open>Constants\<close>

definition TIME_FORMAT :: nat where
  "TIME_FORMAT = 12"

definition DATE_FORMAT :: string where
  "DATE_FORMAT = ''%b %d, %Y''"

subsection \<open>Clock\<close>

record Clock = frame +
  time_old :: string
  day_of_week_old :: string
  date_old :: string

text \<open>
  \<open>tick\<close>. The argument \<open>strftime\<close> is \<open>time.strftime\<close> at the instant of the tick under
  the locale set by \<open>setlocale(UI_LOCALE)\<close>: it maps a format to the formatted local time.
\<close>

definition tick :: "(string \<Rightarrow> string) \<Rightarrow> Clock \<Rightarrow> Clock" where
  "tick strftime self =
     (let time_updated =
            (if TIME_FORMAT = 12 then strftime ''%I:%M%p'' else strftime ''%H:%M'');
          day_of_week_updated = strftime ''%A'';
          date_updated = strftime DATE_FORMAT;
          self1 = (if time_updated \<noteq> time_old self
                   then config time_lbl time_updated (self\<lparr>time_old := time_updated\<rparr>)
                   else self);
          self2 = (if day_of_week_updated \<noteq> day_of_week_old self1
                   then config day_of_wk_lbl day_of_week_updated
                          (self1\<lparr>day_of_week_old := day_of_week_updated\<rparr>)
                   else self1);
          self3 = (if date_updated \<noteq> date_old self2
                   then config date_lbl date_updated (self2\<lparr>date_old := date_updated\<rparr>)
                   else self2)
      in after 200 Tick self3)"

text \<open>The clock as \<open>Clock.__init__\<close> leaves it before its first tick.\<close>

definition Clock_init :: Clock where
  "Clock_init =
     \<lparr>labels = (\<lambda>l. ''''), config_calls = [], after_calls = [],
      time_old = '''', day_of_week_old = '''', date_old = ''''\<rparr>"

subsection \<open>Exceptions and replies\<close>

datatype error =
    ConnectionError | Timeout | URLError
  | JSONDecodeError | KeyError string | IndexError | ValueError | OverflowError
  | AttributeError string

text \<open>
  What \<open>requests.get(url)\<close> does: it raises, or it returns a response whose text is
  either not JSON (\<open>Text None\<close>) or a JSON object read at the shape its provider
  documents, each key of which may be missing.
\<close>

datatype 'a reply = Raises error | Text "'a option"

text \<open>\<open>requests.get(url).json()\<close> and \<open>json.loads(requests.get(url).text)\<close>.\<close>

definition json :: "'a reply \<Rightarrow> error + 'a" where
  "json r =
     (case r of
        Raises e \<Rightarrow> Inl e
      | Text None \<Rightarrow> Inl JSONDecodeError
      | Text (Some obj) \<Rightarrow> Inr obj)"

text \<open>\<open>obj[key]\<close> on a JSON object: \<open>field\<close> is what the object holds under \<open>key\<close>.\<close>

definition subscript :: "'a option \<Rightarrow> string \<Rightarrow> error + 'a" where
  "subscript field key = (case field of None \<Rightarrow> Inl (KeyError key) | Some v \<Rightarrow> Inr v)"

subsection \<open>Numbers\<close>

text \<open>
  A Python float is a binary64 value: a rational, an infinity (\<open>Inf True\<close> is
  \<open>+inf\<close>) or \<open>nan\<close>. The sign of zero is not kept.
\<close>

datatype float = Finite rat | Inf bool | NaN

definition pow2 :: "int \<Rightarrow> rat" where
  "pow2 e = (if 0 \<le> e then 2 ^ nat e else 1 / 2 ^ nat (- e))"

text \<open>The integer nearest to \<open>a / b\<close> for \<open>0 < b\<close>, a tie going to the even one.\<close>

definition round_half_even :: "int \<Rightarrow> int \<Rightarrow> int" where
  "round_half_even a b =
     (let q = a div b; r = a mod b
      in if 2 * r < b then q else if b < 2 * r then q + 1 else if even q then q else q + 1)"

text \<open>The integer nearest to \<open>a / b / 2 ^ e\<close>.\<close>

definition scaled :: "int \<Rightarrow> int \<Rightarrow> int \<Rightarrow> int" where
  "scaled a b e =
     (if 0 \<le> e then round_half_even a (b * 2 ^ nat e)
      else round_half_even (a * 2 ^ nat (- e)) b)"

text \<open>The exponent of \<open>a / b\<close> for \<open>0 < a\<close> and \<open>0 < b\<close>: the \<open>e\<close> with \<open>2 ^ e \<le> a / b < 2 ^ (e + 1)\<close>.\<close>

definition ilog2 :: "int \<Rightarrow> int \<Rightarrow> int" where
  "ilog2 a b =
     (let e = bitlen a - bitlen b
      in if (if 0 \<le> e then b * 2 ^ nat e \<le> a else b \<le> a * 2 ^ nat (- e)) then e else e - 1)"

text \<open>
  Rounding a rational to binary64, to nearest with ties to even: a significand \<open>m\<close> of at
  most 53 bits at the exponent \<open>e\<close> of the last place, which is no less than \<open>- 1074\<close>
  (the subnormal range); \<open>\<bar>m\<bar> * 2 ^ e\<close> reaches \<open>2 ^ 1024\<close>, that is overflows, when
  \<open>bitlen \<bar>m\<bar> + e\<close> exceeds 1024.
\<close>

definition rd :: "rat \<Rightarrow> float" where
  "rd q =
     (if q = 0 then Finite 0
      else let (a, b) = quotient_of q;
               e = max (ilog2 \<bar>a\<bar> b - 52) (- 1074);
               m = scaled a b e
           in if 1024 < bitlen \<bar>m\<bar> + e then Inf (0 < q) else Finite (of_int m * pow2 e))"

text \<open>\<open>x * y\<close> and \<open>x + y\<close> on floats.\<close>

definition fmul :: "float \<Rightarrow> float \<Rightarrow> float" where
  "fmul x y =
     (case (x, y) of
        (Finite a, Finite b) \<Rightarrow> rd (a * b)
      | (Finite a, Inf t) \<Rightarrow> (if a = 0 then NaN else Inf ((0 < a) = t))
      | (Inf s, Finite b) \<Rightarrow> (if b = 0 then NaN else Inf (s = (0 < b)))
      | (Inf s, Inf t) \<Rightarrow> Inf (s = t)
      | _ \<Rightarrow> NaN)"

definition fadd :: "float \<Rightarrow> float \<Rightarrow> float" where
  "fadd x y =
     (case (x, y) of
        (Finite a, Finite b) \<Rightarrow> rd (a + b)
      | (Finite a, Inf t) \<Rightarrow> Inf t
      | (Inf s, Finite b) \<Rightarrow> Inf s
      | (Inf s, Inf t) \<Rightarrow> (if s = t then Inf s else NaN)
      | _ \<Rightarrow> NaN)"

text \<open>\<open>float(i)\<close> for an int, as the mixed arithmetic \<open>1.8 * i\<close> applies it.\<close>

definition float_of_int :: "int \<Rightarrow> error + float" where
  "float_of_int i = (case rd (of_int i) of Inf s \<Rightarrow> Inl OverflowError | x \<Rightarrow> Inr x)"

text \<open>A JSON number is read as an int or as a float.\<close>

datatype number = JInt int | JFloat float

text \<open>\<open>int(x)\<close>: a float is truncated toward zero; \<open>nan\<close> and the infinities raise.\<close>

definition py_int :: "number \<Rightarrow> error + int" where
  "py_int x =
     (case x of
        JInt i \<Rightarrow> Inr i
      | JFloat (Finite q) \<Rightarrow> Inr (if 0 \<le> q then \<lfloor>q\<rfloor> else \<lceil>q\<rceil>)
      | JFloat (Inf s) \<Rightarrow> Inl OverflowError
      | JFloat NaN \<Rightarrow> Inl ValueError)"

text \<open>\<open>str(i)\<close> for an int.\<close>

fun digits :: "nat \<Rightarrow> string" where
  "digits n =
     (if n < 10 then [char_of (48 + n)] else digits (n div 10) @ [char_of (48 + n mod 10)])"

definition str_int :: "int \<Rightarrow> string" where
  "str_int i = (if i < 0 then ''-'' @ digits (nat (- i)) else digits (nat i))"

subsection \<open>Weather: constants and the icon table\<close>

text \<open>
  The coordinates are only ever formatted into a request URL, so a coordinate is
  represented by the text \<open>str\<close> gives for it; \<open>None\<close> is the Python \<open>None\<close>.
\<close>

definition LATITUDE :: "string option" where
  "LATITUDE = Some ''-26.6316062''"

definition LONGITUDE :: "string option" where
  "LONGITUDE = Some ''-54.1174863''"

definition WEATHER_API_TOKEN :: string where
  "WEATHER_API_TOKEN = ''''"

definition WEATHER_LANG :: string where
  "WEATHER_LANG = ''en''"

definition WEATHER_API_URL :: string where
  "WEATHER_API_URL = ''http://api.openweathermap.org/data/2.5/weather''"

definition GEOIP_API_TOKEN :: string where
  "GEOIP_API_TOKEN = ''''"

definition icon_lookup :: "string \<Rightarrow> string option" where
  "icon_lookup = map_of
     [(''01d'', ''assets/Sun.png''),
      (''01n'', ''assets/Moon.png''),
      (''02d'', ''assets/PartlySunny.png''),
      (''02n'', ''assets/PartlyMoon.png''),
      (''03d'', ''assets/Cloud.png''),
      (''03n'', ''assets/Cloud.png''),
      (''04d'', ''assets/Cloud.png''),
      (''04n'', ''assets/Cloud.png''),
      (''09d'', ''assets/Rain.png''),
      (''09n'', ''assets/Rain.png''),
      (''10d'', ''assets/Rain.png''),
      (''10n'', ''assets/Rain.png''),
      (''11d'', ''assets/Storm.png''),
      (''11n'', ''assets/Storm.png''),
      (''13d'', ''assets/Snow.png''),
      (''13n'', ''assets/Snow.png''),
      (''50d'', ''assets/Haze.png''),
      (''50n'', ''assets/Haze.png'')]"

subsection \<open>Weather: the replies of the three services\<close>

text \<open>The object of jsonip.com.\<close>

record ip_json =
  ip :: "string option"

text \<open>
  The object of the geolocation service. Its four values are only ever formatted
  (\<open>{lat}\<close>, \<open>%s\<close>), so each is represented by the text \<open>str\<close> gives for it.
\<close>

record actual_location_obj =
  latitude :: "string option"
  longitude :: "string option"
  city :: "string option"
  region_code :: "string option"

text \<open>The object of openweathermap.org: \<open>main.temp\<close>, the list \<open>weather\<close> and \<open>name\<close>.\<close>

record main_obj =
  temp :: "number option"

record condition =
  cond_main :: "string option"
  description :: "string option"
  icon_code :: "string option"

record weather_obj =
  main :: "main_obj option"
  weather :: "condition list option"
  name :: "string option"

text \<open>What each request of one poll is answered.\<close>

record network =
  ip_reply :: "ip_json reply"
  actual_location_reply :: "actual_location_obj reply"
  weather_reply :: "weather_obj reply"

subsection \<open>Weather: the widget\<close>

record Weather = frame +
  temperature :: string
  forecast :: string
  actual_location :: string
  currently :: string
  icon :: string

text \<open>The widget as \<open>Weather.__init__\<close> leaves it before its first poll.\<close>

definition Weather_init :: Weather where
  "Weather_init =
     \<lparr>labels = (\<lambda>l. ''''), config_calls = [], after_calls = [],
      temperature = '''', forecast = '''', actual_location = '''', currently = '''',
      icon = ''''\<rparr>"

text \<open>
  \<open>get_ip\<close>: the body of the \<open>try\<close>, then the handler, which catches
  \<open>json.decoder.JSONDecodeError\<close> and \<open>KeyError\<close> and nothing else.
\<close>

definition get_ip :: "ip_json reply \<Rightarrow> error + string" where
  "get_ip r =
     (case (case json r of Inl e \<Rightarrow> Inl e | Inr obj \<Rightarrow> subscript (ip obj) ''ip'') of
        Inl JSONDecodeError \<Rightarrow> Inr ''Error: Cannot get ip.''
      | Inl (KeyError k) \<Rightarrow> Inr ''Error: Cannot get ip.''
      | Inl e \<Rightarrow> Inl e
      | Inr a \<Rightarrow> Inr a)"

text \<open>
  The two conversions, on an int: \<open>get_weather\<close> applies \<open>convert_kelvin_to_celsius\<close> to
  the \<open>int\<close> of the temperature it read, and nothing in the program calls
  \<open>convert_kelvin_to_fahrenheit\<close>. In \<open>1.8 * (kelvin_temp - 273) + 32\<close> the difference is
  an int, the product and the sum are floats; \<open>1.8\<close> is the float nearest to 9/5 and 32
  is a float exactly.
\<close>

definition convert_kelvin_to_fahrenheit :: "int \<Rightarrow> error + float" where
  "convert_kelvin_to_fahrenheit kelvin_temp =
     (case float_of_int (kelvin_temp - 273) of
        Inl e \<Rightarrow> Inl e
      | Inr d \<Rightarrow> Inr (fadd (fmul (rd (9 / 5)) d) (Finite 32)))"

definition convert_kelvin_to_celsius :: "int \<Rightarrow> int" where
  "convert_kelvin_to_celsius kelvin_temp = kelvin_temp - 273"

text \<open>
  The URLs. A backslash at the end of a line inside a string literal joins the next line
  to it with its indentation, so each URL written over two lines holds 20 spaces.
\<close>

definition ip_url :: string where
  "ip_url = ''http://jsonip.com/''"

definition actual_location_req_url :: "string \<Rightarrow> string" where
  "actual_location_req_url a =
     ''https://api.freegeoip.app/json                    /'' @ a @ ''?apikey='' @ GEOIP_API_TOKEN"

definition located_weather_req_url :: "string \<Rightarrow> string \<Rightarrow> string" where
  "located_weather_req_url lat lon =
     WEATHER_API_URL @ ''?lat='' @ lat @ ''&                    lon='' @ lon
       @ ''&lang='' @ WEATHER_LANG @ ''&appid='' @ WEATHER_API_TOKEN"

definition str_coord :: "string option \<Rightarrow> string" where
  "str_coord c = (case c of None \<Rightarrow> ''None'' | Some t \<Rightarrow> t)"

definition static_weather_req_url :: "string option \<Rightarrow> string option \<Rightarrow> string" where
  "static_weather_req_url LAT LON =
     WEATHER_API_URL @ ''?lat='' @ str_coord LAT @ ''&lon='' @ str_coord LON
       @ ''&                    lang='' @ WEATHER_LANG @ ''&appid='' @ WEATHER_API_TOKEN"

text \<open>
  Lines 221 to 227: \<open>lat\<close>, \<open>lon\<close> and the \<open>actual_location2\<close> assembled from the city and
  the region code.
\<close>

definition locate :: "actual_location_obj \<Rightarrow> error + string \<times> string \<times> string" where
  "locate obj =
     (case subscript (latitude obj) ''latitude'' of
        Inl e \<Rightarrow> Inl e
      | Inr lat \<Rightarrow>
     (case subscript (longitude obj) ''longitude'' of
        Inl e \<Rightarrow> Inl e
      | Inr lon \<Rightarrow>
     (case subscript (city obj) ''city'' of
        Inl e \<Rightarrow> Inl e
      | Inr c \<Rightarrow>
     (case subscript (region_code obj) ''region_code'' of
        Inl e \<Rightarrow> Inl e
      | Inr rc \<Rightarrow> Inr (lat, lon, c @ '', '' @ rc)))))"

text \<open>
  Lines 213 to 236, with the coordinates as arguments: the URLs requested so far, in
  order, and either the exception raised or \<open>weather_req_url\<close> with the \<open>actual_location2\<close>
  the branch assigned (the \<open>else\<close> branch assigns none).
\<close>

definition weather_req_url ::
  "string option \<Rightarrow> string option \<Rightarrow> network \<Rightarrow> string list \<times> (error + string \<times> string option)"
where
  "weather_req_url LAT LON net =
     (if LAT = None \<and> LON = None then
        (case get_ip (ip_reply net) of
           Inl e \<Rightarrow> ([ip_url], Inl e)
         | Inr a \<Rightarrow>
             (case json (actual_location_reply net) of
                Inl e \<Rightarrow> ([ip_url, actual_location_req_url a], Inl e)
              | Inr obj \<Rightarrow>
                  (case locate obj of
                     Inl e \<Rightarrow> ([ip_url, actual_location_req_url a], Inl e)
                   | Inr (lat, lon, actual_location2) \<Rightarrow>
                       ([ip_url, actual_location_req_url a],
                        Inr (located_weather_req_url lat lon, Some actual_location2)))))
      else ([], Inr (static_weather_req_url LAT LON, None)))"

text \<open>What lines 241 to 252 extract from the weather object.\<close>

record reading =
  temperature2 :: string
  currently2 :: string
  forecast2 :: string
  actual_location2 :: string
  icon_id :: string

definition degree_sign :: string where
  "degree_sign = [CHR 0xB0]"

text \<open>\<open>weather_obj['weather'][0]\<close>.\<close>

definition weather0 :: "weather_obj \<Rightarrow> error + condition" where
  "weather0 obj =
     (case subscript (weather obj) ''weather'' of
        Inl e \<Rightarrow> Inl e
      | Inr [] \<Rightarrow> Inl IndexError
      | Inr (c # cs) \<Rightarrow> Inr c)"

text \<open>
  Lines 241 to 252, in the order the source evaluates them. The \<open>actual_location2\<close> that the
  geolocation branch assembled is the argument \<open>assembled\<close>; line 251 assigns the name of
  the weather object to the same variable, whatever it held.
\<close>

definition extract_reading :: "string option \<Rightarrow> weather_obj \<Rightarrow> error + reading" where
  "extract_reading assembled obj =
     (case subscript (main obj) ''main'' of
        Inl e \<Rightarrow> Inl e
      | Inr m \<Rightarrow>
     (case subscript (temp m) ''temp'' of
        Inl e \<Rightarrow> Inl e
      | Inr t \<Rightarrow>
     (case py_int t of
        Inl e \<Rightarrow> Inl e
      | Inr kelvin \<Rightarrow>
     (case weather0 obj of
        Inl e \<Rightarrow> Inl e
      | Inr c1 \<Rightarrow>
     (case subscript (cond_main c1) ''main'' of
        Inl e \<Rightarrow> Inl e
      | Inr cur \<Rightarrow>
     (case weather0 obj of
        Inl e \<Rightarrow> Inl e
      | Inr c2 \<Rightarrow>
     (case subscript (description c2) ''description'' of
        Inl e \<Rightarrow> Inl e
      | Inr fore \<Rightarrow>
     (case subscript (name obj) ''name'' of
        Inl e \<Rightarrow> Inl e
      | Inr loc \<Rightarrow>
     (case weather0 obj of
        Inl e \<Rightarrow> Inl e
      | Inr c3 \<Rightarrow>
     (case subscript (icon_code c3) ''icon'' of
        Inl e \<Rightarrow> Inl e
      | Inr ic \<Rightarrow>
          Inr \<lparr>temperature2 = str_int (convert_kelvin_to_celsius kelvin) @ degree_sign,
               currently2 = cur, forecast2 = fore, actual_location2 = loc,
               icon_id = ic\<rparr>))))))))))"

text \<open>
  Lines 213 to 252: the URLs requested, in order, and the reading or the exception raised.
\<close>

definition poll ::
  "string option \<Rightarrow> string option \<Rightarrow> network \<Rightarrow> string list \<times> (error + reading)"
where
  "poll LAT LON net =
     (case weather_req_url LAT LON net of
        (urls, Inl e) \<Rightarrow> (urls, Inl e)
      | (urls, Inr (url, assembled)) \<Rightarrow>
          (urls @ [url],
           case json (weather_reply net) of
             Inl e \<Rightarrow> Inl e
           | Inr obj \<Rightarrow> extract_reading assembled obj))"

text \<open>\<open>icon_lookup.get(icon_id, None) or None\<close>.\<close>

definition icon2 :: "string \<Rightarrow> string option" where
  "icon2 ic =
     (case icon_lookup ic of None \<Rightarrow> None | Some p \<Rightarrow> if p = '''' then None else Some p)"

text \<open>Lines 254 to 285: the labels are brought up to date with the reading.\<close>

definition redraw :: "reading \<Rightarrow> Weather \<Rightarrow> Weather" where
  "redraw r self =
     (let self1 =
            (case icon2 (icon_id r) of
               Some p \<Rightarrow> if icon self \<noteq> p then config icon_lbl p (self\<lparr>icon := p\<rparr>) else self
             | None \<Rightarrow> config icon_lbl '''' self);
          self2 =
            (if currently self1 \<noteq> currently2 r
             then config currently_lbl (currently2 r) (self1\<lparr>currently := currently2 r\<rparr>)
             else self1);
          self3 =
            (if forecast self2 \<noteq> forecast2 r
             then config forecast_lbl (forecast2 r) (self2\<lparr>forecast := forecast2 r\<rparr>)
             else self2);
          self4 =
            (if temperature self3 \<noteq> temperature2 r
             then config temperature_lbl (temperature2 r)
                    (self3\<lparr>temperature := temperature2 r\<rparr>)
             else self3)
      in if actual_location self4 \<noteq> actual_location2 r
         then if actual_location2 r = '', ''
              then config actual_location_lbl ''Cannot Pinpoint Location''
                     (self4\<lparr>actual_location := ''Cannot Pinpoint Location''\<rparr>)
              else config actual_location_lbl (actual_location2 r)
                     (self4\<lparr>actual_location := actual_location2 r\<rparr>)
         else self4)"

text \<open>
  \<open>get_weather\<close> with the coordinates as arguments: an exception raised anywhere in the
  \<open>try\<close> is caught, and \<open>after\<close> is called whatever happened.
\<close>

definition get_weather_at ::
  "string option \<Rightarrow> string option \<Rightarrow> network \<Rightarrow> Weather \<Rightarrow> Weather"
where
  "get_weather_at LAT LON net self =
     after 600000 Get_weather
       (case snd (poll LAT LON net) of Inl e \<Rightarrow> self | Inr r \<Rightarrow> redraw r self)"

definition get_weather :: "network \<Rightarrow> Weather \<Rightarrow> Weather" where
  "get_weather = get_weather_at LATITUDE LONGITUDE"

subsection \<open>News\<close>

definition NEWS_COUNTRY_CODE :: "string option" where
  "NEWS_COUNTRY_CODE = Some ''es-AR''"

definition NEWS_URL :: string where
  "NEWS_URL = ''https://news.google.com/rss?hl''"

text \<open>
  An entry of the parsed feed: \<open>title\<close> is what the entry holds under the key \<open>title\<close>,
  and \<open>post.title\<close> raises \<open>AttributeError\<close> when it holds nothing. A headline row: its
  icon and its text.
\<close>

record entry =
  title :: "string option"

record NewsHeadline =
  image :: string
  event_name :: string

definition NewsHeadline_init :: "string \<Rightarrow> NewsHeadline" where
  "NewsHeadline_init t = \<lparr>image = ''assets/Newspaper.png'', event_name = t\<rparr>"

text \<open>
  \<open>headlines_container\<close> is the list of the children of the container frame, in the order
  they were packed, top to bottom: the rows on display.
\<close>

record News = frame +
  headlines_container :: "NewsHeadline list"

text \<open>The widget as \<open>News.__init__\<close> leaves it before its first poll.\<close>

definition News_init :: News where
  "News_init =
     \<lparr>labels = (\<lambda>l. ''''), config_calls = [], after_calls = [], headlines_container = []\<rparr>"

definition headlines_url :: string where
  "headlines_url =
     (case NEWS_COUNTRY_CODE of
        None \<Rightarrow> NEWS_URL @ ''=en-US''
      | Some code \<Rightarrow> NEWS_URL @ ''='' @ code)"

text \<open>
  The loop over \<open>feed.entries[0:5]\<close>: a row is made and packed for each post. \<open>post.title\<close>
  is evaluated before the row is made; when it raises the loop ends there, with the rows
  packed so far, and the exception is the first component of the result.
\<close>

fun pack_headlines :: "entry list \<Rightarrow> News \<Rightarrow> error option \<times> News" where
  "pack_headlines [] self = (None, self)"
| "pack_headlines (post # posts) self =
     (case title post of
        None \<Rightarrow> (Some (AttributeError ''title''), self)
      | Some t \<Rightarrow>
          pack_headlines posts
            (self\<lparr>headlines_container := headlines_container self @ [NewsHeadline_init t]\<rparr>))"

text \<open>
  \<open>get_headlines\<close>. The argument \<open>parse\<close> is \<open>feedparser.parse\<close>: for a URL, the entries
  of the feed or the exception raised. The children are destroyed first, inside the
  \<open>try\<close>; an exception raised by the fetch or inside the loop is caught, and \<open>after\<close> is
  called whatever happened.
\<close>

definition get_headlines :: "(string \<Rightarrow> error + entry list) \<Rightarrow> News \<Rightarrow> News" where
  "get_headlines parse self =
     (let self1 = self\<lparr>headlines_container := []\<rparr>
      in after 600000 Get_headlines
           (case parse headlines_url of
              Inl e \<Rightarrow> self1
            | Inr entries \<Rightarrow> snd (pack_headlines (take 5 entries) self1)))"

subsection \<open>Example inputs\<close>

text \<open>A clock that has ticked at 09:41AM on a Monday, and the formats of a later instant.\<close>

definition Clock_example :: Clock where
  "Clock_example =
     \<lparr>labels = (\<lambda>l. if l = time_lbl then ''09:41AM''
                     else if l = day_of_wk_lbl then ''Monday''
                     else if l = date_lbl then ''Nov 02, 2026'' else ''''),
      config_calls = [], after_calls = [],
      time_old = ''09:41AM'', day_of_week_old = ''Monday'', date_old = ''Nov 02, 2026''\<rparr>"

definition strftime_example :: "string \<Rightarrow> string" where
  "strftime_example fmt =
     (if fmt = ''%I:%M%p'' then ''09:42AM''
      else if fmt = ''%H:%M'' then ''09:42''
      else if fmt = ''%A'' then ''Monday''
      else if fmt = ''%b %d, %Y'' then ''Nov 02, 2026''
      else fmt)"

text \<open>A news widget showing one row, a feed that cannot be fetched, and feeds of 8 and 3 entries.\<close>

definition News_example :: News where
  "News_example =
     \<lparr>labels = (\<lambda>l. ''''), config_calls = [], after_calls = [],
      headlines_container = [NewsHeadline_init ''Old headline'']\<rparr>"

definition failing_parse :: "string \<Rightarrow> error + entry list" where
  "failing_parse url = Inl URLError"

definition feed8 :: "entry list" where
  "feed8 =
     [\<lparr>title = Some ''h1''\<rparr>, \<lparr>title = Some ''h2''\<rparr>, \<lparr>title = Some ''h3''\<rparr>,
      \<lparr>title = Some ''h4''\<rparr>, \<lparr>title = Some ''h5''\<rparr>, \<lparr>title = Some ''h6''\<rparr>,
      \<lparr>title = Some ''h7''\<rparr>, \<lparr>title = Some ''h8''\<rparr>]"

definition parse8 :: "string \<Rightarrow> error + entry list" where
  "parse8 url = (if url = ''https://news.google.com/rss?hl=es-AR'' then Inr feed8 else Inl URLError)"

definition feed3 :: "entry list" where
  "feed3 = [\<lparr>title = Some ''h1''\<rparr>, \<lparr>title = Some ''h2''\<rparr>, \<lparr>title = Some ''h3''\<rparr>]"

definition parse3 :: "string \<Rightarrow> error + entry list" where
  "parse3 url = (if url = ''https://news.google.com/rss?hl=es-AR'' then Inr feed3 else Inl URLError)"

text \<open>A feed of 3 entries, the second of which has no title.\<close>

definition feed_untitled :: "entry list" where
  "feed_untitled = [\<lparr>title = Some ''h1''\<rparr>, \<lparr>title = None\<rparr>, \<lparr>title = Some ''h3''\<rparr>]"

definition parse_untitled :: "string \<Rightarrow> error + entry list" where
  "parse_untitled url =
     (if url = ''https://news.google.com/rss?hl=es-AR'' then Inr feed_untitled else Inl URLError)"

text \<open>
  A weather object reading 300.99 K with the icon code \<open>ic\<close> and the name \<open>nm\<close>, and a
  network that answers every request: the geolocation service with a blank city and a
  blank region code.
\<close>

definition weather_obj_example :: "string \<Rightarrow> string \<Rightarrow> weather_obj" where
  "weather_obj_example ic nm =
     \<lparr>main = Some \<lparr>temp = Some (JFloat (Finite (30099 / 100)))\<rparr>,
      weather = Some [\<lparr>cond_main = Some ''Clouds'', description = Some ''scattered clouds'',
                       icon_code = Some ic\<rparr>],
      name = Some nm\<rparr>"

definition network_example :: "string \<Rightarrow> string \<Rightarrow> network" where
  "network_example ic nm =
     \<lparr>ip_reply = Text (Some \<lparr>ip = Some ''203.0.113.7''\<rparr>),
      actual_location_reply =
        Text (Some \<lparr>latitude = Some ''-26.63'', longitude = Some ''-54.12'',
                    city = Some '''', region_code = Some ''''\<rparr>),
      weather_reply = Text (Some (weather_obj_example ic nm))\<rparr>"

definition reading_example :: "string \<Rightarrow> string \<Rightarrow> reading" where
  "reading_example ic nm =
     \<lparr>temperature2 = ''27'' @ degree_sign, currently2 = ''Clouds'',
      forecast2 = ''scattered clouds'', actual_location2 = nm, icon_id = ic\<rparr>"

text \<open>Networks on which the weather request fails: no connection, a body that is not JSON,
  an object without the key \<open>main\<close>.\<close>

definition network_down :: network where
  "network_down = (network_example ''01d'' ''Posadas'')\<lparr>weather_reply := Raises ConnectionError\<rparr>"

definition network_malformed :: network where
  "network_malformed = (network_example ''01d'' ''Posadas'')\<lparr>weather_reply := Text None\<rparr>"

definition network_missing_key :: network where
  "network_missing_key =
     (network_example ''01d'' ''Posadas'')
       \<lparr>weather_reply := Text (Some ((weather_obj_example ''01d'' ''Posadas'')\<lparr>main := None\<rparr>))\<rparr>"

text \<open>A weather widget after a successful poll.\<close>

definition Weather_example :: Weather where
  "Weather_example = get_weather (network_example ''01d'' ''Posadas'') Weather_init"

text \<open>Networks on which the request of \<open>get_ip\<close> fails, and on which its body is not JSON.\<close>

definition network_no_ip :: network where
  "network_no_ip = (network_example ''01d'' ''Posadas'')\<lparr>ip_reply := Raises ConnectionError\<rparr>"

definition network_ip_malformed :: network where
  "network_ip_malformed = (network_example ''01d'' ''Posadas'')\<lparr>ip_reply := Text None\<rparr>"

section \<open>Properties\<close>

subsection \<open>Frames\<close>

lemma config_simps:
  "labels (config l v self) = (labels self)(l := v)"
  "config_calls (config l v self) = config_calls self @ [(l, v)]"
  "after_calls (config l v self) = after_calls self"
  by (simp_all add: config_def)

lemma after_simps:
  "labels (after ms f self) = labels self"
  "config_calls (after ms f self) = config_calls self"
  "after_calls (after ms f self) = after_calls self @ [(ms, f)]"
  by (simp_all add: after_def)

subsection \<open>Clock\<close>

text \<open>
  C9. On a tick, a \<open>config\<close> call is made on the time, weekday and date labels exactly
  when the newly formatted string differs from the one cached at the previous tick, with
  the new string; every label without such a call shows what it showed before; the cached
  strings are the new ones; and \<open>tick\<close> is scheduled again 200 ms later.
\<close>

theorem tick_updates_changed_labels_only:
  "config_calls (tick strftime self) =
     config_calls self
       @ (if strftime ''%I:%M%p'' \<noteq> time_old self
          then [(time_lbl, strftime ''%I:%M%p'')] else [])
       @ (if strftime ''%A'' \<noteq> day_of_week_old self
          then [(day_of_wk_lbl, strftime ''%A'')] else [])
       @ (if strftime DATE_FORMAT \<noteq> date_old self
          then [(date_lbl, strftime DATE_FORMAT)] else [])
   \<and> labels (tick strftime self) l =
       (if l = time_lbl \<and> strftime ''%I:%M%p'' \<noteq> time_old self then strftime ''%I:%M%p''
        else if l = day_of_wk_lbl \<and> strftime ''%A'' \<noteq> day_of_week_old self
          then strftime ''%A''
        else if l = date_lbl \<and> strftime DATE_FORMAT \<noteq> date_old self
          then strftime DATE_FORMAT
        else labels self l)
   \<and> time_old (tick strftime self) = strftime ''%I:%M%p''
   \<and> day_of_week_old (tick strftime self) = strftime ''%A''
   \<and> date_old (tick strftime self) = strftime DATE_FORMAT
   \<and> after_calls (tick strftime self) = after_calls self @ [(200, Tick)]"
  by (simp add: tick_def TIME_FORMAT_def Let_def config_def after_def)

theorem tick_updates_changed_labels_only_witness:
  "config_calls (tick strftime_example Clock_example) = [(time_lbl, ''09:42AM'')]
   \<and> labels (tick strftime_example Clock_example) time_lbl = ''09:42AM''
   \<and> labels (tick strftime_example Clock_example) day_of_wk_lbl = ''Monday''
   \<and> labels (tick strftime_example Clock_example) date_lbl = ''Nov 02, 2026''
   \<and> after_calls (tick strftime_example Clock_example) = [(200, Tick)]"
  using tick_updates_changed_labels_only [of strftime_example Clock_example time_lbl]
    tick_updates_changed_labels_only [of strftime_example Clock_example day_of_wk_lbl]
    tick_updates_changed_labels_only [of strftime_example Clock_example date_lbl]
  by (simp add: strftime_example_def Clock_example_def DATE_FORMAT_def)

subsection \<open>News\<close>

lemma pack_headlines_titled:
  assumes "map title posts = map Some ts"
  shows "pack_headlines posts self =
           (None, self\<lparr>headlines_container :=
                          headlines_container self @ map NewsHeadline_init ts\<rparr>)"
  using assms
proof (induction posts arbitrary: self ts)
  case Nil
  then show ?case by simp
next
  case (Cons post posts)
  then obtain t ts' where ts: "ts = t # ts'" "title post = Some t" "map title posts = map Some ts'"
    by (cases ts) auto
  show ?case
    by (simp add: ts Cons.IH [OF ts(3)])
qed

lemma pack_headlines_names:
  "map Some (map event_name (headlines_container (snd (pack_headlines posts self)))) =
     map Some (map event_name (headlines_container self))
       @ takeWhile (\<lambda>t. t \<noteq> None) (map title posts)"
proof (induction posts arbitrary: self)
  case Nil
  then show ?case by simp
next
  case (Cons post posts)
  show ?case
  proof (cases "title post")
    case None
    then show ?thesis by simp
  next
    case (Some t)
    then show ?thesis
      using Cons.IH
        [of "self\<lparr>headlines_container := headlines_container self @ [NewsHeadline_init t]\<rparr>"]
      by (simp add: NewsHeadline_init_def)
  qed
qed

lemma pack_headlines_rows:
  "headlines_container (snd (pack_headlines posts self)) =
     headlines_container self
       @ map NewsHeadline_init
           (map event_name (drop (length (headlines_container self))
              (headlines_container (snd (pack_headlines posts self)))))"
proof (induction posts arbitrary: self)
  case Nil
  then show ?case by simp
next
  case (Cons post posts)
  show ?case
  proof (cases "title post")
    case None
    then show ?thesis by simp
  next
    case (Some t)
    let ?self = "self\<lparr>headlines_container := headlines_container self @ [NewsHeadline_init t]\<rparr>"
    let ?rows = "headlines_container (snd (pack_headlines posts ?self))"
    have ih: "?rows = (headlines_container self @ [NewsHeadline_init t])
        @ map NewsHeadline_init
            (map event_name (drop (Suc (length (headlines_container self))) ?rows))"
      using Cons.IH [of ?self] by simp
    then have d: "drop (length (headlines_container self)) ?rows =
        NewsHeadline_init t
          # map NewsHeadline_init
              (map event_name (drop (Suc (length (headlines_container self))) ?rows))"
      by (metis append.assoc append_Cons append_Nil append_eq_conv_conj)
    have "?rows = headlines_container self
        @ map NewsHeadline_init (map event_name (drop (length (headlines_container self)) ?rows))"
      by (subst d, subst (1) ih) (simp add: NewsHeadline_init_def)
    then show ?thesis
      by (simp add: Some)
  qed
qed

lemma pack_headlines_frame:
  "labels (snd (pack_headlines posts self)) = labels self"
  "config_calls (snd (pack_headlines posts self)) = config_calls self"
  "after_calls (snd (pack_headlines posts self)) = after_calls self"
  by (induction posts arbitrary: self) (simp_all split: option.splits)

lemma headlines_url_eq: "headlines_url = ''https://news.google.com/rss?hl=es-AR''"
  by (simp add: headlines_url_def NEWS_COUNTRY_CODE_def NEWS_URL_def)

text \<open>
  C1, as the source has it. A poll destroys the rows on display before it fetches the
  feed, so after a poll whose fetch raises no headline row is on display, whatever was
  displayed before; no row is built, no label is touched, and the next poll is scheduled
  600000 ms later.
\<close>

theorem get_headlines_failed_fetch_clears_rows:
  assumes "parse headlines_url = Inl e"
  shows "headlines_container (get_headlines parse self) = []
     \<and> labels (get_headlines parse self) = labels self
     \<and> config_calls (get_headlines parse self) = config_calls self
     \<and> after_calls (get_headlines parse self) = after_calls self @ [(600000, Get_headlines)]"
  using assms by (simp add: get_headlines_def Let_def after_def)

theorem get_headlines_failed_fetch_clears_rows_witness:
  "failing_parse headlines_url = Inl URLError
   \<and> headlines_container (get_headlines failing_parse News_example) = []
   \<and> after_calls (get_headlines failing_parse News_example) = [(600000, Get_headlines)]"
  using get_headlines_failed_fetch_clears_rows [of failing_parse URLError News_example]
  by (simp add: failing_parse_def News_example_def)

text \<open>
  C1, as stated, fails: the widget shows the row ``Old headline'', the fetch raises, and
  the rows on display after the poll are not the rows on display before it.
\<close>

theorem get_headlines_failed_fetch_counterexample:
  "failing_parse headlines_url = Inl URLError
   \<and> headlines_container News_example = [NewsHeadline_init ''Old headline'']
   \<and> headlines_container (get_headlines failing_parse News_example)
       \<noteq> headlines_container News_example"
  by (simp add: failing_parse_def News_example_def get_headlines_def Let_def after_def)

text \<open>
  C7, as stated, fails: the fetch returns a feed of 3 entries, the second of which has no
  title; \<open>post.title\<close> raises inside the loop, the exception is caught, and only the row of
  the first entry is on display, not a row for every entry.
\<close>

theorem get_headlines_untitled_entry_counterexample:
  "parse_untitled headlines_url = Inr feed_untitled
   \<and> length feed_untitled = 3
   \<and> map event_name (headlines_container (get_headlines parse_untitled News_init)) = [''h1'']
   \<and> length (headlines_container (get_headlines parse_untitled News_init))
       \<noteq> length feed_untitled"
  by (simp add: parse_untitled_def headlines_url_eq feed_untitled_def get_headlines_def Let_def
      after_def News_init_def NewsHeadline_init_def)

text \<open>
  C7, as the source has it. After a poll whose fetch returns a feed, every row on display
  is a headline row made from a title, and the titles on display are those of the first 5
  entries of the feed, in feed order, up to the first of them that has no title. So when
  each of the first 5 entries has a title, the rows on display are exactly the rows of
  those titles: 5 rows when the feed has at least 5 entries, and a row for every entry
  when it has fewer. The next poll is scheduled 600000 ms later in every case.
\<close>

theorem get_headlines_first_five:
  assumes "parse headlines_url = Inr entries"
  shows "map Some (map event_name (headlines_container (get_headlines parse self)))
           = takeWhile (\<lambda>t. t \<noteq> None) (map title (take 5 entries))
     \<and> headlines_container (get_headlines parse self)
           = map NewsHeadline_init
               (map event_name (headlines_container (get_headlines parse self)))
     \<and> (map title (take 5 entries) = map Some ts \<longrightarrow>
          headlines_container (get_headlines parse self) = map NewsHeadline_init ts
          \<and> map event_name (headlines_container (get_headlines parse self)) = ts)
     \<and> (5 \<le> length entries \<and> map title (take 5 entries) = map Some ts \<longrightarrow>
          length (headlines_container (get_headlines parse self)) = 5)
     \<and> (length entries < 5 \<and> map title entries = map Some ts \<longrightarrow>
          map event_name (headlines_container (get_headlines parse self)) = ts
          \<and> length (headlines_container (get_headlines parse self)) = length entries)
     \<and> after_calls (get_headlines parse self) = after_calls self @ [(600000, Get_headlines)]"
proof -
  let ?self1 = "self\<lparr>headlines_container := []\<rparr>"
  have rows: "headlines_container (get_headlines parse self)
                = headlines_container (snd (pack_headlines (take 5 entries) ?self1))"
    using assms by (simp add: get_headlines_def Let_def after_def)
  have names: "map Some (map event_name (headlines_container (get_headlines parse self)))
                 = takeWhile (\<lambda>t. t \<noteq> None) (map title (take 5 entries))"
    using pack_headlines_names [of "take 5 entries" ?self1] by (simp add: rows)
  have made: "headlines_container (get_headlines parse self)
                = map NewsHeadline_init
                    (map event_name (headlines_container (get_headlines parse self)))"
    using pack_headlines_rows [of "take 5 entries" ?self1] by (simp add: rows)
  have titled: "headlines_container (get_headlines parse self) = map NewsHeadline_init ts
      \<and> map event_name (headlines_container (get_headlines parse self)) = ts"
    if "map title (take 5 entries) = map Some ts" for ts
    by (simp add: rows pack_headlines_titled [OF that] NewsHeadline_init_def comp_def)
  have five: "length (headlines_container (get_headlines parse self)) = 5"
    if "5 \<le> length entries \<and> map title (take 5 entries) = map Some ts"
  proof -
    from that have "length (take 5 entries) = length ts"
      by (metis length_map)
    with that have l: "length ts = 5"
      by simp
    from that titled [of ts]
    have r: "headlines_container (get_headlines parse self) = map NewsHeadline_init ts"
      by blast
    have "length (headlines_container (get_headlines parse self)) = length ts"
      by (simp only: r length_map)
    with l show ?thesis
      by simp
  qed
  have fewer: "map event_name (headlines_container (get_headlines parse self)) = ts
      \<and> length (headlines_container (get_headlines parse self)) = length entries"
    if "length entries < 5 \<and> map title entries = map Some ts"
  proof -
    from that have t: "map title (take 5 entries) = map Some ts"
      by simp
    from that have l: "length ts = length entries"
      by (metis length_map)
    from titled [OF t]
    have r: "headlines_container (get_headlines parse self) = map NewsHeadline_init ts"
      and n: "map event_name (headlines_container (get_headlines parse self)) = ts"
      by blast+
    have "length (headlines_container (get_headlines parse self)) = length ts"
      by (simp only: r length_map)
    with n l show ?thesis
      by simp
  qed
  have "after_calls (get_headlines parse self) = after_calls self @ [(600000, Get_headlines)]"
    using assms by (simp add: get_headlines_def Let_def after_simps pack_headlines_frame)
  with names made titled five fewer show ?thesis
    by blast
qed

theorem get_headlines_first_five_witness:
  "parse8 headlines_url = Inr feed8 \<and> 5 \<le> length feed8
   \<and> map title (take 5 feed8) = map Some [''h1'', ''h2'', ''h3'', ''h4'', ''h5'']
   \<and> map event_name (headlines_container (get_headlines parse8 News_example))
       = [''h1'', ''h2'', ''h3'', ''h4'', ''h5'']
   \<and> length (headlines_container (get_headlines parse8 News_example)) = 5
   \<and> parse3 headlines_url = Inr feed3 \<and> length feed3 < 5
   \<and> map title feed3 = map Some [''h1'', ''h2'', ''h3'']
   \<and> map event_name (headlines_container (get_headlines parse3 News_example))
       = [''h1'', ''h2'', ''h3'']
   \<and> length (headlines_container (get_headlines parse3 News_example)) = length feed3"
proof -
  have h8: "parse8 headlines_url = Inr feed8"
    by (simp add: parse8_def headlines_url_eq)
  have h3: "parse3 headlines_url = Inr feed3"
    by (simp add: parse3_def headlines_url_eq)
  have l8: "5 \<le> length feed8" "map title (take 5 feed8) = map Some [''h1'', ''h2'', ''h3'', ''h4'', ''h5'']"
    by (simp_all add: feed8_def)
  have l3: "length feed3 < 5" "map title feed3 = map Some [''h1'', ''h2'', ''h3'']"
    by (simp_all add: feed3_def)
  note t8 = get_headlines_first_five
      [of parse8 feed8 News_example "[''h1'', ''h2'', ''h3'', ''h4'', ''h5'']", OF h8]
  note t3 = get_headlines_first_five
      [of parse3 feed3 News_example "[''h1'', ''h2'', ''h3'']", OF h3]
  have "map event_name (headlines_container (get_headlines parse8 News_example))
       = [''h1'', ''h2'', ''h3'', ''h4'', ''h5'']"
    using t8 l8 by blast
  moreover have "length (headlines_container (get_headlines parse8 News_example)) = 5"
    using t8 l8 by blast
  moreover have "map event_name (headlines_container (get_headlines parse3 News_example))
       = [''h1'', ''h2'', ''h3'']
     \<and> length (headlines_container (get_headlines parse3 News_example)) = length feed3"
    using t3 l3 by blast
  ultimately show ?thesis
    using h8 h3 l8 l3 by blast
qed

subsection \<open>Weather: the steps of a poll\<close>

declare digits.simps [simp del]

lemma icon_lookup_nonempty: "icon_lookup ic = Some p \<Longrightarrow> p \<noteq> ''''"
  by (auto simp add: icon_lookup_def split: if_splits)

lemma icon2_eq_icon_lookup: "icon2 ic = icon_lookup ic"
  by (auto simp add: icon2_def dest: icon_lookup_nonempty split: option.splits)

lemma redraw_frame:
  "after_calls (redraw r self) = after_calls self"
  by (simp add: redraw_def Let_def config_def split: option.splits)

lemma redraw_cache:
  "currently (redraw r self) = currently2 r"
  "forecast (redraw r self) = forecast2 r"
  "temperature (redraw r self) = temperature2 r"
  "actual_location2 r \<noteq> '', '' \<Longrightarrow> actual_location (redraw r self) = actual_location2 r"
  "icon2 (icon_id r) = Some p \<Longrightarrow> icon (redraw r self) = p"
  by (simp_all add: redraw_def Let_def config_def split: option.splits)

lemma redraw_cached:
  assumes "currently self = currently2 r" "forecast self = forecast2 r"
    "temperature self = temperature2 r" "actual_location self = actual_location2 r"
    "\<And>p. icon2 (icon_id r) = Some p \<Longrightarrow> icon self = p"
  shows "redraw r self =
           (if icon2 (icon_id r) = None then config icon_lbl '''' self else self)"
  using assms by (simp add: redraw_def Let_def config_def split: option.splits)

lemma redraw_unmapped:
  assumes "icon2 (icon_id r) = None"
  shows "labels (redraw r self) icon_lbl = ''''"
    and "(icon_lbl, '''') \<in> set (config_calls (redraw r self))"
  using assms by (simp_all add: redraw_def Let_def config_def)

lemma get_weather_at_failure:
  assumes "snd (poll LAT LON net) = Inl e"
  shows "get_weather_at LAT LON net self = after 600000 Get_weather self"
  using assms by (simp add: get_weather_at_def)

lemma get_weather_at_success:
  assumes "snd (poll LAT LON net) = Inr r"
  shows "get_weather_at LAT LON net self = after 600000 Get_weather (redraw r self)"
  using assms by (simp add: get_weather_at_def)

lemma get_weather_at_after_calls:
  "after_calls (get_weather_at LAT LON net self) = after_calls self @ [(600000, Get_weather)]"
  by (simp add: get_weather_at_def after_simps redraw_frame split: sum.splits)

lemma py_int_example: "py_int (JFloat (Finite (30099 / 100))) = Inr 300"
  by code_simp

lemma str_int_example: "str_int 27 = ''27''"
  by code_simp

lemma extract_reading_example:
  "extract_reading a (weather_obj_example ic nm) = Inr (reading_example ic nm)"
  by (simp add: weather_obj_example_def extract_reading_def subscript_def weather0_def
      py_int_example convert_kelvin_to_celsius_def str_int_example reading_example_def)

lemma poll_example:
  "snd (poll LATITUDE LONGITUDE (network_example ic nm)) = Inr (reading_example ic nm)"
  by (simp add: poll_def weather_req_url_def LATITUDE_def json_def network_example_def
      extract_reading_example)

lemma poll_example_located:
  "snd (poll None None (network_example ic nm)) = Inr (reading_example ic nm)"
  by (simp add: poll_def weather_req_url_def get_ip_def locate_def json_def subscript_def
      network_example_def extract_reading_example)

subsection \<open>Weather: redraw suppression\<close>

lemma redraw_second:
  assumes "actual_location2 r \<noteq> '', ''"
  shows "redraw r (after ms f (redraw r self)) =
           (if icon2 (icon_id r) = None then config icon_lbl '''' (after ms f (redraw r self))
            else after ms f (redraw r self))"
  by (rule redraw_cached) (simp_all add: after_def redraw_cache assms)

lemma second_poll:
  assumes "snd (poll LAT LON net1) = Inr r" and "snd (poll LAT LON net2) = Inr r"
    and "actual_location2 r \<noteq> '', ''"
  shows "get_weather_at LAT LON net2 (get_weather_at LAT LON net1 self) =
           after 600000 Get_weather
             (if icon_lookup (icon_id r) = None
              then config icon_lbl '''' (get_weather_at LAT LON net1 self)
              else get_weather_at LAT LON net1 self)"
  by (simp add: get_weather_at_success [OF assms(1)] get_weather_at_success [OF assms(2)]
      redraw_second [OF assms(3)] icon2_eq_icon_lookup)

lemma first_poll_unmapped:
  assumes "snd (poll LAT LON net1) = Inr r" and "icon_lookup (icon_id r) = None"
  shows "labels (get_weather_at LAT LON net1 self) icon_lbl = ''''"
  by (simp add: get_weather_at_success [OF assms(1)] after_simps redraw_unmapped
      icon2_eq_icon_lookup assms(2))

text \<open>
  C2, as stated, fails: the weather object carries the icon code \<open>99x\<close>, which the table
  does not map; two consecutive polls extract the same reading, and the second poll still
  makes a \<open>config\<close> call, the one that clears the image of the icon label.
\<close>

theorem get_weather_identical_polls_counterexample:
  "snd (poll LATITUDE LONGITUDE (network_example ''99x'' ''Posadas''))
     = Inr (reading_example ''99x'' ''Posadas'')
   \<and> config_calls
         (get_weather (network_example ''99x'' ''Posadas'')
           (get_weather (network_example ''99x'' ''Posadas'') Weather_init))
       = config_calls (get_weather (network_example ''99x'' ''Posadas'') Weather_init)
           @ [(icon_lbl, '''')]
   \<and> config_calls
         (get_weather (network_example ''99x'' ''Posadas'')
           (get_weather (network_example ''99x'' ''Posadas'') Weather_init))
       \<noteq> config_calls (get_weather (network_example ''99x'' ''Posadas'') Weather_init)"
proof -
  have "icon_lookup (icon_id (reading_example ''99x'' ''Posadas'')) = None"
    by (simp add: icon_lookup_def reading_example_def)
  moreover have "actual_location2 (reading_example ''99x'' ''Posadas'') \<noteq> '', ''"
    by (simp add: reading_example_def)
  ultimately show ?thesis
    by (simp add: poll_example get_weather_def second_poll after_simps config_simps)
qed

text \<open>
  C2, as the source has it. When two consecutive polls extract the same reading and its
  location name is not \<open>'', ''\<close>, the second poll reconfigures no text label and loads no
  image; when the icon code of the reading is in the table it makes no \<open>config\<close> call at
  all, and when the code is not in the table its only call is the one clearing the image
  of the icon label, which the first poll had cleared already. Every label shows after
  the second poll what it showed after the first.
\<close>

theorem get_weather_identical_polls:
  assumes "snd (poll LAT LON net1) = Inr r" and "snd (poll LAT LON net2) = Inr r"
    and "actual_location2 r \<noteq> '', ''"
  shows "config_calls (get_weather_at LAT LON net2 (get_weather_at LAT LON net1 self))
           = config_calls (get_weather_at LAT LON net1 self)
               @ (if icon_lookup (icon_id r) = None then [(icon_lbl, '''')] else [])
     \<and> labels (get_weather_at LAT LON net2 (get_weather_at LAT LON net1 self))
           = labels (get_weather_at LAT LON net1 self)"
proof (cases "icon_lookup (icon_id r) = None")
  case True
  from first_poll_unmapped [OF assms(1) True]
  have "(labels (get_weather_at LAT LON net1 self))(icon_lbl := '''')
          = labels (get_weather_at LAT LON net1 self)"
    by (simp add: fun_upd_idem_iff)
  with True show ?thesis
    by (simp add: second_poll [OF assms] after_simps config_simps)
next
  case False
  then show ?thesis
    by (auto simp add: second_poll [OF assms] after_simps)
qed

theorem get_weather_identical_polls_witness:
  "snd (poll LATITUDE LONGITUDE (network_example ''01d'' ''Posadas''))
     = Inr (reading_example ''01d'' ''Posadas'')
   \<and> actual_location2 (reading_example ''01d'' ''Posadas'') \<noteq> '', ''
   \<and> config_calls
         (get_weather (network_example ''01d'' ''Posadas'')
           (get_weather (network_example ''01d'' ''Posadas'') Weather_init))
       = config_calls (get_weather (network_example ''01d'' ''Posadas'') Weather_init)
   \<and> labels
         (get_weather (network_example ''01d'' ''Posadas'')
           (get_weather (network_example ''01d'' ''Posadas'') Weather_init))
       = labels (get_weather (network_example ''01d'' ''Posadas'') Weather_init)"
proof -
  have p: "snd (poll LATITUDE LONGITUDE (network_example ''01d'' ''Posadas''))
             = Inr (reading_example ''01d'' ''Posadas'')"
    by (rule poll_example)
  have n: "actual_location2 (reading_example ''01d'' ''Posadas'') \<noteq> '', ''"
    by (simp add: reading_example_def)
  have i: "icon_lookup (icon_id (reading_example ''01d'' ''Posadas'')) \<noteq> None"
    by (simp add: icon_lookup_def reading_example_def)
  show ?thesis
    using get_weather_identical_polls [OF p p n, of Weather_init] p n i
    by (simp add: get_weather_def)
qed

subsection \<open>Weather: failed polls\<close>

text \<open>
  C3. When anything in a weather poll raises, be it the request, the decoding of the
  body, a missing key or the conversion of the temperature, every label shows what it
  showed before, no \<open>config\<close> call is made, the cached values are unchanged, and the next
  poll is scheduled 600000 ms later; a poll \<open>net'\<close> that raises nothing schedules the
  next one after the same delay.
\<close>

theorem get_weather_failure_keeps_labels:
  assumes "snd (poll LAT LON net) = Inl e"
  shows "labels (get_weather_at LAT LON net self) = labels self
     \<and> config_calls (get_weather_at LAT LON net self) = config_calls self
     \<and> temperature (get_weather_at LAT LON net self) = temperature self
     \<and> currently (get_weather_at LAT LON net self) = currently self
     \<and> forecast (get_weather_at LAT LON net self) = forecast self
     \<and> actual_location (get_weather_at LAT LON net self) = actual_location self
     \<and> icon (get_weather_at LAT LON net self) = icon self
     \<and> after_calls (get_weather_at LAT LON net self) = after_calls self @ [(600000, Get_weather)]
     \<and> after_calls (get_weather_at LAT LON net' self) = after_calls self @ [(600000, Get_weather)]"
  by (simp add: get_weather_at_failure [OF assms] get_weather_at_after_calls after_def)

lemma poll_failures:
  "snd (poll LATITUDE LONGITUDE network_down) = Inl ConnectionError"
  "snd (poll LATITUDE LONGITUDE network_malformed) = Inl JSONDecodeError"
  "snd (poll LATITUDE LONGITUDE network_missing_key) = Inl (KeyError ''main'')"
  by (simp_all add: poll_def weather_req_url_def LATITUDE_def json_def network_down_def
      network_malformed_def network_missing_key_def network_example_def
      weather_obj_example_def extract_reading_def subscript_def)

theorem get_weather_failure_keeps_labels_witness:
  "snd (poll LATITUDE LONGITUDE network_down) = Inl ConnectionError
   \<and> labels (get_weather network_down Weather_example) = labels Weather_example
   \<and> after_calls (get_weather network_down Weather_example)
       = after_calls Weather_example @ [(600000, Get_weather)]
   \<and> snd (poll LATITUDE LONGITUDE network_malformed) = Inl JSONDecodeError
   \<and> labels (get_weather network_malformed Weather_example) = labels Weather_example
   \<and> after_calls (get_weather network_malformed Weather_example)
       = after_calls Weather_example @ [(600000, Get_weather)]
   \<and> snd (poll LATITUDE LONGITUDE network_missing_key) = Inl (KeyError ''main'')
   \<and> labels (get_weather network_missing_key Weather_example) = labels Weather_example
   \<and> after_calls (get_weather network_missing_key Weather_example)
       = after_calls Weather_example @ [(600000, Get_weather)]"
  using get_weather_failure_keeps_labels [OF poll_failures(1), of Weather_example]
    get_weather_failure_keeps_labels [OF poll_failures(2), of Weather_example]
    get_weather_failure_keeps_labels [OF poll_failures(3), of Weather_example]
  by (simp add: poll_failures get_weather_def)

subsection \<open>Weather: the icon\<close>

lemma redraw_mapped:
  assumes "icon2 (icon_id r) = Some p"
  shows "labels (redraw r self) icon_lbl = (if icon self \<noteq> p then p else labels self icon_lbl)"
    and "icon self \<noteq> p \<Longrightarrow> (icon_lbl, p) \<in> set (config_calls (redraw r self))"
  using assms by (simp_all add: redraw_def Let_def config_def)

lemma redraw_unmapped_cache:
  assumes "icon2 (icon_id r) = None"
  shows "icon (redraw r self) = icon self"
  using assms by (simp add: redraw_def Let_def config_def)

text \<open>
  C5. The table maps \<open>01d\<close> to \<open>assets/Sun.png\<close> and does not map \<open>99x\<close>, and so does the
  lookup a poll performs at line 254. When a poll extracts a reading whose icon code the
  table maps to an asset, \<open>01d\<close> to \<open>assets/Sun.png\<close> for instance, the cached icon is that
  asset after the poll, and the icon label shows it: set by a \<open>config\<close> call when the
  cached icon was another, left as it was otherwise. When a poll extracts a reading whose
  icon code is not in the table, the poll raises nothing: it clears the image of the icon
  label with a \<open>config\<close> call, leaves the cached icon as it was, goes on to bring the
  cached condition, description and temperature up to date, and schedules the next poll.
\<close>

theorem unmapped_icon_clears_icon:
  "icon_lookup ''01d'' = Some ''assets/Sun.png''
   \<and> icon_lookup ''99x'' = None
   \<and> icon2 ''01d'' = Some ''assets/Sun.png''
   \<and> icon2 ''99x'' = None
   \<and> (snd (poll LAT LON net) = Inr r \<and> icon_lookup (icon_id r) = Some p \<longrightarrow>
        icon (get_weather_at LAT LON net self) = p
        \<and> labels (get_weather_at LAT LON net self) icon_lbl
            = (if icon self \<noteq> p then p else labels self icon_lbl)
        \<and> (icon self \<noteq> p \<longrightarrow>
             (icon_lbl, p) \<in> set (config_calls (get_weather_at LAT LON net self))))
   \<and> (snd (poll LAT LON net) = Inr r \<and> icon_id r = ''01d'' \<longrightarrow>
        icon (get_weather_at LAT LON net self) = ''assets/Sun.png''
        \<and> labels (get_weather_at LAT LON net self) icon_lbl
            = (if icon self \<noteq> ''assets/Sun.png'' then ''assets/Sun.png''
               else labels self icon_lbl))
   \<and> (snd (poll LAT LON net) = Inr r \<and> icon_lookup (icon_id r) = None \<longrightarrow>
        labels (get_weather_at LAT LON net self) icon_lbl = ''''
        \<and> (icon_lbl, '''') \<in> set (config_calls (get_weather_at LAT LON net self))
        \<and> icon (get_weather_at LAT LON net self) = icon self
        \<and> currently (get_weather_at LAT LON net self) = currently2 r
        \<and> forecast (get_weather_at LAT LON net self) = forecast2 r
        \<and> temperature (get_weather_at LAT LON net self) = temperature2 r
        \<and> after_calls (get_weather_at LAT LON net self)
            = after_calls self @ [(600000, Get_weather)])"
proof -
  have table: "icon_lookup ''01d'' = Some ''assets/Sun.png''" "icon_lookup ''99x'' = None"
    by (simp_all add: icon_lookup_def)
  then have lookup: "icon2 ''01d'' = Some ''assets/Sun.png''" "icon2 ''99x'' = None"
    by (simp_all add: icon2_eq_icon_lookup)
  have mapped: "icon (get_weather_at LAT LON net self) = q
      \<and> labels (get_weather_at LAT LON net self) icon_lbl
          = (if icon self \<noteq> q then q else labels self icon_lbl)
      \<and> (icon self \<noteq> q \<longrightarrow>
           (icon_lbl, q) \<in> set (config_calls (get_weather_at LAT LON net self)))"
    if p: "snd (poll LAT LON net) = Inr r" and m: "icon_lookup (icon_id r) = Some q" for q
  proof -
    have i: "icon2 (icon_id r) = Some q"
      using m by (simp add: icon2_eq_icon_lookup)
    have "icon (get_weather_at LAT LON net self) = q"
      by (simp add: get_weather_at_success [OF p] after_def redraw_cache(5) [OF i])
    then show ?thesis
      by (simp add: get_weather_at_success [OF p] after_simps redraw_mapped [OF i])
  qed
  have sun: "icon (get_weather_at LAT LON net self) = ''assets/Sun.png''
      \<and> labels (get_weather_at LAT LON net self) icon_lbl
          = (if icon self \<noteq> ''assets/Sun.png'' then ''assets/Sun.png''
             else labels self icon_lbl)"
    if p: "snd (poll LAT LON net) = Inr r" and c: "icon_id r = ''01d''"
    using mapped [OF p, of "''assets/Sun.png''"] table(1) c by simp
  have unmapped: "labels (get_weather_at LAT LON net self) icon_lbl = ''''
      \<and> (icon_lbl, '''') \<in> set (config_calls (get_weather_at LAT LON net self))
      \<and> icon (get_weather_at LAT LON net self) = icon self
      \<and> currently (get_weather_at LAT LON net self) = currently2 r
      \<and> forecast (get_weather_at LAT LON net self) = forecast2 r
      \<and> temperature (get_weather_at LAT LON net self) = temperature2 r
      \<and> after_calls (get_weather_at LAT LON net self)
          = after_calls self @ [(600000, Get_weather)]"
    if p: "snd (poll LAT LON net) = Inr r" and u: "icon_lookup (icon_id r) = None"
  proof -
    have "icon2 (icon_id r) = None"
      using u by (simp add: icon2_eq_icon_lookup)
    then show ?thesis
      by (simp add: get_weather_at_success [OF p] after_simps redraw_unmapped redraw_frame)
        (simp add: after_def redraw_cache redraw_unmapped_cache)
  qed
  from table lookup mapped sun unmapped show ?thesis
    by blast
qed

theorem unmapped_icon_clears_icon_witness:
  "snd (poll LATITUDE LONGITUDE (network_example ''99x'' ''Posadas''))
     = Inr (reading_example ''99x'' ''Posadas'')
   \<and> icon_lookup (icon_id (reading_example ''99x'' ''Posadas'')) = None
   \<and> labels (get_weather (network_example ''99x'' ''Posadas'') Weather_example) icon_lbl = ''''
   \<and> (icon_lbl, '''')
        \<in> set (config_calls (get_weather (network_example ''99x'' ''Posadas'') Weather_example))
   \<and> snd (poll LATITUDE LONGITUDE (network_example ''01d'' ''Posadas''))
       = Inr (reading_example ''01d'' ''Posadas'')
   \<and> icon_id (reading_example ''01d'' ''Posadas'') = ''01d''
   \<and> icon_lookup (icon_id (reading_example ''01d'' ''Posadas'')) = Some ''assets/Sun.png''
   \<and> icon Weather_init \<noteq> ''assets/Sun.png''
   \<and> icon (get_weather (network_example ''01d'' ''Posadas'') Weather_init) = ''assets/Sun.png''
   \<and> labels (get_weather (network_example ''01d'' ''Posadas'') Weather_init) icon_lbl
       = ''assets/Sun.png''
   \<and> (icon_lbl, ''assets/Sun.png'')
        \<in> set (config_calls (get_weather (network_example ''01d'' ''Posadas'') Weather_init))"
proof -
  have p: "snd (poll LATITUDE LONGITUDE (network_example ''99x'' ''Posadas''))
             = Inr (reading_example ''99x'' ''Posadas'')"
    by (rule poll_example)
  have u: "icon_lookup (icon_id (reading_example ''99x'' ''Posadas'')) = None"
    by (simp add: icon_lookup_def reading_example_def)
  have p': "snd (poll LATITUDE LONGITUDE (network_example ''01d'' ''Posadas''))
             = Inr (reading_example ''01d'' ''Posadas'')"
    by (rule poll_example)
  have c: "icon_id (reading_example ''01d'' ''Posadas'') = ''01d''"
    by (simp add: reading_example_def)
  have m: "icon_lookup (icon_id (reading_example ''01d'' ''Posadas'')) = Some ''assets/Sun.png''"
    by (simp add: icon_lookup_def reading_example_def)
  have n: "icon Weather_init \<noteq> ''assets/Sun.png''"
    by (simp add: Weather_init_def)
  note t = unmapped_icon_clears_icon [of LATITUDE LONGITUDE "network_example ''99x'' ''Posadas''"
        "reading_example ''99x'' ''Posadas''" _ Weather_example]
  note t' = unmapped_icon_clears_icon [of LATITUDE LONGITUDE "network_example ''01d'' ''Posadas''"
        "reading_example ''01d'' ''Posadas''" "''assets/Sun.png''" Weather_init]
  have "labels (get_weather (network_example ''99x'' ''Posadas'') Weather_example) icon_lbl = ''''
     \<and> (icon_lbl, '''')
        \<in> set (config_calls (get_weather (network_example ''99x'' ''Posadas'') Weather_example))"
    using p u t unfolding get_weather_def by blast
  moreover have
    "icon (get_weather (network_example ''01d'' ''Posadas'') Weather_init) = ''assets/Sun.png''
     \<and> labels (get_weather (network_example ''01d'' ''Posadas'') Weather_init) icon_lbl
         = (if icon Weather_init \<noteq> ''assets/Sun.png'' then ''assets/Sun.png''
            else labels Weather_init icon_lbl)
     \<and> (icon_lbl, ''assets/Sun.png'')
        \<in> set (config_calls (get_weather (network_example ''01d'' ''Posadas'') Weather_init))"
    using p' m n t' unfolding get_weather_def by blast
  ultimately show ?thesis
    using p u p' c m n by simp
qed

subsection \<open>Weather: the location\<close>

text \<open>
  C6 at a failing input. With no static coordinates, the geolocation service answers with
  a blank city and a blank region code, so the location assembled at lines 224 to 227 is
  \<open>'', ''\<close>; the weather object is named Posadas. Line 251 replaces the assembled location
  by that name, and the location label shows Posadas.
\<close>

theorem geolocation_blank_location_shows_weather_name:
  "snd (weather_req_url None None (network_example ''01d'' ''Posadas''))
     = Inr (located_weather_req_url ''-26.63'' ''-54.12'', Some '', '')
   \<and> labels (get_weather_at None None (network_example ''01d'' ''Posadas'') Weather_init)
         actual_location_lbl = ''Posadas''
   \<and> actual_location (get_weather_at None None (network_example ''01d'' ''Posadas'') Weather_init)
       = ''Posadas''"
proof -
  have "snd (weather_req_url None None (network_example ''01d'' ''Posadas''))
          = Inr (located_weather_req_url ''-26.63'' ''-54.12'', Some '', '')"
    by (simp add: weather_req_url_def get_ip_def locate_def json_def subscript_def
        network_example_def)
  moreover have
    "labels (redraw (reading_example ''01d'' ''Posadas'') Weather_init) actual_location_lbl
       = ''Posadas''"
    "actual_location (redraw (reading_example ''01d'' ''Posadas'') Weather_init) = ''Posadas''"
    by (simp_all add: redraw_def Let_def config_def reading_example_def Weather_init_def
        split: option.splits)
  ultimately show ?thesis
    by (simp add: get_weather_at_success [OF poll_example_located] after_simps)
      (simp add: after_def)
qed

subsection \<open>Weather: where the coordinates come from\<close>






subsection \<open>Floats: the error of rounding\<close>

lemma pow2_powi: "pow2 e = power_int 2 e"
  by (simp add: pow2_def power_int_def field_simps)

lemma pow2_pos: "0 < pow2 e"
  by (simp add: pow2_powi)

lemma pow2_add: "pow2 (a + b) = pow2 a * pow2 b"
  by (simp add: pow2_powi power_int_add)

lemma pow2_mono: "a \<le> b \<Longrightarrow> pow2 a \<le> pow2 b"
  by (simp add: pow2_powi power_int_increasing)

lemma round_half_even_error:
  assumes "0 < b"
  shows "\<bar>of_int (round_half_even a b) - (of_int a / of_int b :: rat)\<bar> \<le> 1 / 2"
proof -
  define q where "q = a div b"
  define r where "r = a mod b"
  have a: "a = b * q + r"
    by (simp add: q_def r_def)
  have r: "0 \<le> r" "r < b"
    using assms by (simp_all add: r_def)
  have b: "(0::rat) < of_int b"
    using assms by simp
  have d: "(of_int a / of_int b :: rat) = of_int q + of_int r / of_int b"
    using b by (simp add: a field_simps)
  have r0: "(0::rat) \<le> of_int r / of_int b" "(of_int r / of_int b :: rat) < 1"
    using r b by (simp_all add: field_simps)
  consider "2 * r < b" | "b < 2 * r" | "2 * r = b"
    by linarith
  then show ?thesis
  proof cases
    case 1
    then have "(2::rat) * of_int r < of_int b"
      by (metis of_int_less_iff of_int_mult of_int_numeral)
    then have "(of_int r / of_int b :: rat) < 1 / 2"
      using b by (simp add: field_simps)
    moreover have "round_half_even a b = q"
      using 1 by (simp add: round_half_even_def Let_def q_def r_def)
    ultimately show ?thesis
      using r0 by (simp add: d)
  next
    case 2
    then have "(of_int b :: rat) < 2 * of_int r"
      by (metis of_int_less_iff of_int_mult of_int_numeral)
    then have "(1 / 2 :: rat) < of_int r / of_int b"
      using b by (simp add: field_simps)
    moreover have "round_half_even a b = q + 1"
      using 2 by (simp add: round_half_even_def Let_def q_def r_def)
    ultimately show ?thesis
      using r0 by (simp add: d)
  next
    case 3
    then have "(2::rat) * of_int r = of_int b"
      by (metis of_int_mult of_int_numeral)
    then have h: "(of_int r / of_int b :: rat) = 1 / 2"
      using b by (simp add: field_simps)
    have "round_half_even a b = q \<or> round_half_even a b = q + 1"
      using 3 by (simp add: round_half_even_def Let_def q_def r_def)
    then show ?thesis
      by (auto simp add: d h)
  qed
qed

lemma scaled_error:
  assumes "0 < b"
  shows "\<bar>of_int (scaled a b e) - (of_int a / of_int b) / pow2 e\<bar> \<le> 1 / 2"
proof (cases "0 \<le> e")
  case True
  have "0 < b * 2 ^ nat e"
    using assms by simp
  from round_half_even_error [OF this, of a] True show ?thesis
    by (simp add: scaled_def pow2_def)
next
  case False
  from round_half_even_error [OF assms, of "a * 2 ^ nat (- e)"] False show ?thesis
    by (simp add: scaled_def pow2_def)
qed


lemma bitlen_pow2_bounds:
  assumes "0 < a"
  shows "pow2 (bitlen a - 1) \<le> of_int a" "(of_int a :: rat) < pow2 (bitlen a)"
proof -
  have l: "1 \<le> bitlen a"
    using assms by (simp add: bitlen_ge_iff_power)
  from bitlen_bounds [OF assms]
  have "(2::int) ^ nat (bitlen a - 1) \<le> a" "a < 2 ^ nat (bitlen a)"
    by simp_all
  then have "(of_int ((2::int) ^ nat (bitlen a - 1)) :: rat) \<le> of_int a"
    "(of_int a :: rat) < of_int (2 ^ nat (bitlen a))"
    by (simp_all only: of_int_le_iff of_int_less_iff)
  then show "pow2 (bitlen a - 1) \<le> of_int a" "(of_int a :: rat) < pow2 (bitlen a)"
    using l by (simp_all add: pow2_def)
qed

lemma ilog2_test:
  assumes "0 < b"
  shows "(if 0 \<le> e then b * 2 ^ nat e \<le> a else b \<le> a * 2 ^ nat (- e))
           = (pow2 e \<le> of_int a / of_int b)"
proof (cases "0 \<le> e")
  case True
  have "(b * 2 ^ nat e \<le> a) = ((of_int (b * 2 ^ nat e) :: rat) \<le> of_int a)"
    by (simp only: of_int_le_iff)
  also have "\<dots> = (pow2 e \<le> of_int a / of_int b)"
    using assms True by (simp add: pow2_def field_simps)
  finally show ?thesis
    using True by simp
next
  case False
  have "(b \<le> a * 2 ^ nat (- e)) = ((of_int b :: rat) \<le> of_int (a * 2 ^ nat (- e)))"
    by (simp only: of_int_le_iff)
  also have "\<dots> = (pow2 e \<le> of_int a / of_int b)"
    using assms False by (simp add: pow2_def field_simps)
  finally show ?thesis
    using False by simp
qed

lemma ilog2_bounds:
  assumes "0 < a" and "0 < b"
  shows "pow2 (ilog2 a b) \<le> of_int a / of_int b"
    and "(of_int a / of_int b :: rat) < pow2 (ilog2 a b + 1)"
proof -
  define e where "e = bitlen a - bitlen b"
  have b: "(0::rat) < of_int b" "(0::rat) < of_int a"
    using assms by simp_all
  note ba = bitlen_pow2_bounds [OF assms(1)]
  note bb = bitlen_pow2_bounds [OF assms(2)]
  have up: "(of_int a / of_int b :: rat) < pow2 (e + 1)"
  proof -
    have "(of_int a :: rat) < pow2 (bitlen b - 1) * pow2 (e + 1)"
      using ba(2) by (simp add: e_def flip: pow2_add)
    also have "\<dots> \<le> of_int b * pow2 (e + 1)"
      using bb(1) pow2_pos [of "e + 1"] by simp
    finally show ?thesis
      using b by (simp add: field_simps)
  qed
  have lo: "pow2 (e - 1) \<le> (of_int a / of_int b :: rat)"
  proof -
    have "of_int b * pow2 (e - 1) \<le> pow2 (bitlen b) * pow2 (e - 1)"
      using bb(2) pow2_pos [of "e - 1"] by simp
    also have "\<dots> = pow2 (bitlen a - 1)"
      by (simp add: e_def flip: pow2_add)
    also have "\<dots> \<le> of_int a"
      by (rule ba(1))
    finally show ?thesis
      using b by (simp add: field_simps)
  qed
  have i: "ilog2 a b = (if pow2 e \<le> of_int a / of_int b then e else e - 1)"
    by (simp add: ilog2_def Let_def ilog2_test [OF assms(2)] flip: e_def)
  show "pow2 (ilog2 a b) \<le> of_int a / of_int b"
    using lo by (simp add: i)
  show "(of_int a / of_int b :: rat) < pow2 (ilog2 a b + 1)"
    using up by (auto simp add: i not_le)
qed


lemma pow2_less_cancel: "pow2 a < pow2 b \<Longrightarrow> a < b"
  using pow2_mono [of b a] by (cases "a < b") simp_all

lemma rd_normal:
  assumes "pow2 (- 1022) \<le> \<bar>q\<bar>" and "\<bar>q\<bar> < pow2 1023"
  shows "\<exists>r. rd q = Finite r \<and> \<bar>r - q\<bar> \<le> \<bar>q\<bar> / 2 ^ 53"
proof -
  obtain a b where ab: "quotient_of q = (a, b)"
    by fastforce
  have b: "0 < b"
    using ab by (rule quotient_of_denom_pos)
  have q: "q = of_int a / of_int b"
    using ab by (rule quotient_of_div)
  have q0: "q \<noteq> 0"
    using assms(1) pow2_pos [of "- 1022"] by auto
  then have a: "0 < \<bar>a\<bar>"
    by (auto simp add: q)
  have absq: "\<bar>q\<bar> = of_int \<bar>a\<bar> / of_int b"
    using b by (simp add: q)
  define L where "L = ilog2 \<bar>a\<bar> b"
  have L: "pow2 L \<le> \<bar>q\<bar>" "\<bar>q\<bar> < pow2 (L + 1)"
    using ilog2_bounds [OF a b] by (simp_all add: absq L_def)
  have "pow2 (- 1022) < pow2 (L + 1)"
    using assms(1) L(2) by simp
  then have L1: "- 1022 \<le> L"
    using pow2_less_cancel by fastforce
  have "pow2 L < pow2 1023"
    using assms(2) L(1) by simp
  then have L2: "L \<le> 1022"
    using pow2_less_cancel by fastforce
  define e where "e = L - 52"
  have e: "max (ilog2 \<bar>a\<bar> b - 52) (- 1074) = e"
    using L1 by (simp add: e_def L_def)
  define m where "m = scaled a b e"
  have m: "\<bar>of_int m - q / pow2 e\<bar> \<le> 1 / 2"
    using scaled_error [OF b, of a e] by (simp add: m_def q)
  define r where "r = of_int m * pow2 e"
  have "\<bar>r - q\<bar> = pow2 e * \<bar>of_int m - q / pow2 e\<bar>"
    using pow2_pos [of e] by (simp add: r_def abs_mult [symmetric] field_simps)
  also have "\<dots> \<le> pow2 e * (1 / 2)"
    using m pow2_pos [of e] by (simp only: mult_le_cancel_left_pos)
  also have "\<dots> = pow2 L / 2 ^ 53"
  proof -
    have "pow2 L = pow2 e * pow2 52"
      by (simp add: e_def flip: pow2_add)
    then show ?thesis
      by (simp add: pow2_def)
  qed
  also have "\<dots> \<le> \<bar>q\<bar> / 2 ^ 53"
    using L(1) by (simp add: divide_right_mono)
  finally have err: "\<bar>r - q\<bar> \<le> \<bar>q\<bar> / 2 ^ 53" .
  have "\<bar>of_int m :: rat\<bar> \<le> \<bar>q / pow2 e\<bar> + 1 / 2"
    using m by linarith
  also have "\<bar>q / pow2 e\<bar> = \<bar>q\<bar> / pow2 e"
    using pow2_pos [of e] by simp
  also have "\<dots> < pow2 (L + 1) / pow2 e"
    using L(2) pow2_pos [of e] by (simp add: divide_strict_right_mono)
  also have "\<dots> = 2 ^ 53"
  proof -
    have "L + 1 = e + 53"
      by (simp add: e_def)
    then have "pow2 (L + 1) = pow2 e * pow2 53"
      by (simp only: pow2_add)
    then show ?thesis
      using pow2_pos [of e] by (simp add: pow2_def)
  qed
  finally have "\<bar>of_int m :: rat\<bar> < 2 ^ 54"
    by simp
  then have "(of_int \<bar>m\<bar> :: rat) < of_int (2 ^ 54)"
    by simp
  then have "\<bar>m\<bar> < 2 ^ 54"
    by (simp only: of_int_less_iff)
  then have "bitlen \<bar>m\<bar> \<le> 54"
    by (simp add: bitlen_le_iff_power)
  then have "\<not> 1024 < bitlen \<bar>m\<bar> + e"
    using L2 by (simp add: e_def)
  then have "rd q = Finite r"
    using q0 by (simp add: rd_def ab e Let_def r_def m_def)
  with err show ?thesis
    by blast
qed


lemma rd_9_5: "rd (9 / 5) = Finite (8106479329266893 / 4503599627370496)"
  by code_simp

lemma rd_0: "rd 0 = Finite 0"
  by (simp add: rd_def)

lemma rd_32: "rd 32 = Finite 32"
  by code_simp

lemma pow2_consts: "pow2 (- 1022) \<le> 1 / 16" "(2::rat) ^ 60 \<le> pow2 1023"
proof -
  have "pow2 (- 1022) \<le> pow2 (- 4)"
    by (rule pow2_mono) simp
  then show "pow2 (- 1022) \<le> 1 / 16"
    by (simp add: pow2_def)
  have "pow2 60 \<le> pow2 1023"
    by (rule pow2_mono) simp
  then show "(2::rat) ^ 60 \<le> pow2 1023"
    by (simp add: pow2_def)
qed

lemma rd_moderate:
  assumes "1 / 16 \<le> \<bar>q\<bar>" and "\<bar>q\<bar> < 2 ^ 60"
  shows "\<exists>r. rd q = Finite r \<and> \<bar>r - q\<bar> \<le> \<bar>q\<bar> / 2 ^ 53"
  using assms pow2_consts by (intro rd_normal) linarith+

lemma fahrenheit_accuracy:
  assumes "\<bar>k - 273\<bar> \<le> 2 ^ 53"
  shows "\<exists>x. convert_kelvin_to_fahrenheit k = Inr (Finite x)
     \<and> \<bar>x - (9 / 5 * of_int (k - 273) + 32)\<bar> \<le> (of_int \<bar>k - 273\<bar> + 4) / 2 ^ 50"
proof (cases "k - 273 = 0")
  case True
  then show ?thesis
    by (simp add: convert_kelvin_to_fahrenheit_def float_of_int_def rd_0 rd_9_5 fmul_def
        fadd_def rd_32)
next
  case False
  define i :: rat where "i = of_int (k - 273)"
  define c :: rat where "c = 8106479329266893 / 4503599627370496"
  have c: "1 \<le> c" "c \<le> 2" "c - 9 / 5 = 1 / 22517998136852480"
    by (simp_all add: c_def)
  have i1: "1 \<le> \<bar>i\<bar>"
  proof -
    have "1 \<le> \<bar>k - 273\<bar>"
      using False by linarith
    then have "(of_int 1 :: rat) \<le> of_int \<bar>k - 273\<bar>"
      by (simp only: of_int_le_iff)
    then show ?thesis
      by (simp add: i_def)
  qed
  have i2: "\<bar>i\<bar> \<le> 9007199254740992"
  proof -
    have "(of_int \<bar>k - 273\<bar> :: rat) \<le> of_int (2 ^ 53)"
      using assms by (simp only: of_int_le_iff)
    then show ?thesis
      by (simp add: i_def)
  qed
  have i3: "1 / 5 \<le> \<bar>9 / 5 * i + 32\<bar>"
  proof -
    have "9 * (k - 273) + 160 \<noteq> 0"
      by presburger
    then have "1 \<le> \<bar>9 * (k - 273) + 160\<bar>"
      by linarith
    then have "(of_int 1 :: rat) \<le> of_int \<bar>9 * (k - 273) + 160\<bar>"
      by (simp only: of_int_le_iff)
    then have "1 \<le> \<bar>9 * i + 160\<bar>"
      by (simp add: i_def)
    then show ?thesis
      by linarith
  qed
  obtain d where d: "rd i = Finite d" "\<bar>d - i\<bar> \<le> \<bar>i\<bar> / 2 ^ 53"
    using rd_moderate [of i] i1 i2 by auto
  have fi: "float_of_int (k - 273) = Inr (Finite d)"
    using d(1) by (simp add: float_of_int_def i_def)
  have d2: "\<bar>d - i\<bar> \<le> \<bar>i\<bar> / 9007199254740992"
    using d(2) by simp
  have d1: "1 / 2 \<le> \<bar>d\<bar>" "\<bar>d\<bar> \<le> 3 / 2 * \<bar>i\<bar>"
    using d2 i1 by linarith+
  have cd: "\<bar>c * d\<bar> = c * \<bar>d\<bar>"
    using c(1) by (simp add: abs_mult)
  have cdl: "\<bar>d\<bar> \<le> c * \<bar>d\<bar>"
    using mult_right_mono [OF c(1), of "\<bar>d\<bar>"] by simp
  have cdu: "c * \<bar>d\<bar> \<le> 2 * \<bar>d\<bar>"
    using mult_right_mono [OF c(2), of "\<bar>d\<bar>"] by simp
  obtain p where p: "rd (c * d) = Finite p" "\<bar>p - c * d\<bar> \<le> \<bar>c * d\<bar> / 2 ^ 53"
  proof -
    have "1 / 16 \<le> \<bar>c * d\<bar>" "\<bar>c * d\<bar> < 2 ^ 60"
      using d1 i2 cdl cdu unfolding cd by simp_all
    then show ?thesis
      using rd_moderate [of "c * d"] that by auto
  qed
  have p2: "\<bar>p - c * d\<bar> \<le> 3 * \<bar>i\<bar> / 9007199254740992"
  proof -
    have "\<bar>p - c * d\<bar> \<le> c * \<bar>d\<bar> / 9007199254740992"
      using p(2) unfolding cd by simp
    also have "\<dots> \<le> 2 * \<bar>d\<bar> / 9007199254740992"
      using cdu by simp
    also have "\<dots> \<le> 3 * \<bar>i\<bar> / 9007199254740992"
      using d1(2) by simp
    finally show ?thesis .
  qed
  have cdi: "\<bar>c * d - c * i\<bar> \<le> 2 * \<bar>i\<bar> / 9007199254740992"
  proof -
    have "c * d - c * i = c * (d - i)"
      by (simp add: right_diff_distrib)
    then have "\<bar>c * d - c * i\<bar> = c * \<bar>d - i\<bar>"
      using c(1) by (simp add: abs_mult)
    also have "\<dots> \<le> 2 * \<bar>d - i\<bar>"
      using mult_right_mono [OF c(2), of "\<bar>d - i\<bar>"] by simp
    also have "\<dots> \<le> 2 * \<bar>i\<bar> / 9007199254740992"
      using d2 by simp
    finally show ?thesis .
  qed
  have ci: "\<bar>c * i - 9 / 5 * i\<bar> = \<bar>i\<bar> / 22517998136852480"
  proof -
    have "c * i - 9 / 5 * i = (c - 9 / 5) * i"
      by (simp only: left_diff_distrib)
    also have "\<dots> = i / 22517998136852480"
      by (simp add: c(3))
    finally have e: "c * i - 9 / 5 * i = i / 22517998136852480" .
    have "\<bar>i / 22517998136852480\<bar> = \<bar>i\<bar> / 22517998136852480"
      by simp
    then show ?thesis
      by (simp only: e)
  qed
  have E: "\<bar>p - 9 / 5 * i\<bar> \<le> 6 * \<bar>i\<bar> / 9007199254740992"
    using p2 cdi ci by linarith
  obtain x where x: "rd (p + 32) = Finite x" "\<bar>x - (p + 32)\<bar> \<le> \<bar>p + 32\<bar> / 2 ^ 53"
  proof -
    have "1 / 16 \<le> \<bar>p + 32\<bar>"
    proof (cases "\<bar>i\<bar> \<le> 100")
      case True
      then show ?thesis
        using E i3 by linarith
    next
      case False
      then show ?thesis
        using E by linarith
    qed
    moreover have "\<bar>p + 32\<bar> < 2 ^ 60"
    proof -
      have "\<bar>p + 32\<bar> < 1152921504606846976"
        using E i2 by linarith
      then show ?thesis
        by simp
    qed
    ultimately show ?thesis
      using rd_moderate [of "p + 32"] that by auto
  qed
  have "convert_kelvin_to_fahrenheit k = Inr (Finite x)"
    by (simp add: convert_kelvin_to_fahrenheit_def fi rd_9_5 fmul_def fadd_def p(1) x(1)
        flip: c_def)
  moreover have "\<bar>x - (9 / 5 * i + 32)\<bar> \<le> (\<bar>i\<bar> + 4) / 2 ^ 50"
  proof -
    have "\<bar>p + 32\<bar> \<le> 2 * \<bar>i\<bar> + 32"
      using E i1 by linarith
    then have "\<bar>p + 32\<bar> / 9007199254740992 \<le> (2 * \<bar>i\<bar> + 32) / 9007199254740992"
      by (simp only: divide_right_mono zero_le_numeral)
    moreover have "\<bar>x - (p + 32)\<bar> \<le> \<bar>p + 32\<bar> / 9007199254740992"
      using x(2) by simp
    ultimately have a: "\<bar>x - (p + 32)\<bar> \<le> (2 * \<bar>i\<bar> + 32) / 9007199254740992"
      by (rule order_trans [rotated])
    have "\<bar>x - (9 / 5 * i + 32)\<bar> \<le> \<bar>x - (p + 32)\<bar> + \<bar>p - 9 / 5 * i\<bar>"
      by linarith
    also have "\<dots> \<le> (2 * \<bar>i\<bar> + 32) / 9007199254740992 + 6 * \<bar>i\<bar> / 9007199254740992"
      using a E by (rule add_mono)
    also have "\<dots> = (8 * \<bar>i\<bar> + 32) / 9007199254740992"
      by simp
    finally have "\<bar>x - (9 / 5 * i + 32)\<bar> \<le> (8 * \<bar>i\<bar> + 32) / 9007199254740992" .
    then show ?thesis
      by simp
  qed
  ultimately show ?thesis
    by (auto simp add: i_def)
qed

subsection \<open>Weather: get_ip\<close>

lemma get_ip_sentinel_urls:
  assumes "get_ip (ip_reply net) = Inr a"
  shows "fst (poll None None net) \<noteq> []
     \<and> take 2 (fst (poll None None net)) = [ip_url, actual_location_req_url a]"
  using assms by (simp add: poll_def weather_req_url_def split: sum.splits prod.splits)

text \<open>
  C10. \<open>get_ip\<close> returns the string \<open>Error: Cannot get ip.\<close> when the body of the reply is
  not JSON and when the object has no key \<open>ip\<close>, and the address otherwise. An exception
  raised by the request itself that is neither a \<open>JSONDecodeError\<close> nor a \<open>KeyError\<close>, a
  \<open>ConnectionError\<close> or a \<open>Timeout\<close> for instance, is raised by \<open>get_ip\<close> too: the poll
  that called it ends with that exception after its first request. When \<open>get_ip\<close> returns
  the error string, the poll on the geolocation path requests the geolocation URL with
  that string in the place of the address.
\<close>

theorem get_ip_catches_decode_and_key_errors_only:
  "get_ip (Text None) = Inr ''Error: Cannot get ip.''
   \<and> get_ip (Text (Some \<lparr>ip = None\<rparr>)) = Inr ''Error: Cannot get ip.''
   \<and> get_ip (Text (Some \<lparr>ip = Some a\<rparr>)) = Inr a
   \<and> get_ip (Raises ConnectionError) = Inl ConnectionError
   \<and> get_ip (Raises Timeout) = Inl Timeout
   \<and> (e \<noteq> JSONDecodeError \<and> (\<forall>k. e \<noteq> KeyError k) \<longrightarrow>
        get_ip (Raises e) = Inl e
        \<and> (ip_reply net = Raises e \<longrightarrow> poll None None net = ([ip_url], Inl e)))
   \<and> (get_ip (ip_reply net) = Inr ''Error: Cannot get ip.'' \<longrightarrow>
        take 2 (fst (poll None None net)) =
          [''http://jsonip.com/'',
           ''https://api.freegeoip.app/json                    /Error: Cannot get ip.?apikey=''])"
proof -
  have "get_ip (Raises e) = Inl e
      \<and> (ip_reply net = Raises e \<longrightarrow> poll None None net = ([ip_url], Inl e))"
    if "e \<noteq> JSONDecodeError \<and> (\<forall>k. e \<noteq> KeyError k)"
  proof -
    have "get_ip (Raises e) = Inl e"
      using that by (cases e) (simp_all add: get_ip_def json_def)
    then show ?thesis
      by (simp add: poll_def weather_req_url_def)
  qed
  moreover have "take 2 (fst (poll None None net)) =
          [''http://jsonip.com/'',
           ''https://api.freegeoip.app/json                    /Error: Cannot get ip.?apikey='']"
    if "get_ip (ip_reply net) = Inr ''Error: Cannot get ip.''"
    using get_ip_sentinel_urls [OF that]
    by (simp add: ip_url_def actual_location_req_url_def GEOIP_API_TOKEN_def)
  moreover have "get_ip (Text None) = Inr ''Error: Cannot get ip.''"
    "get_ip (Text (Some \<lparr>ip = None\<rparr>)) = Inr ''Error: Cannot get ip.''"
    "get_ip (Text (Some \<lparr>ip = Some a\<rparr>)) = Inr a"
    "get_ip (Raises ConnectionError) = Inl ConnectionError"
    "get_ip (Raises Timeout) = Inl Timeout"
    by (simp_all add: get_ip_def json_def subscript_def)
  ultimately show ?thesis
    by blast
qed

theorem get_ip_catches_decode_and_key_errors_only_witness:
  "ConnectionError \<noteq> JSONDecodeError \<and> (\<forall>k. ConnectionError \<noteq> KeyError k)
   \<and> ip_reply network_no_ip = Raises ConnectionError
   \<and> get_ip (ip_reply network_no_ip) = Inl ConnectionError
   \<and> poll None None network_no_ip = ([ip_url], Inl ConnectionError)
   \<and> get_ip (ip_reply network_ip_malformed) = Inr ''Error: Cannot get ip.''
   \<and> take 2 (fst (poll None None network_ip_malformed)) =
        [''http://jsonip.com/'',
         ''https://api.freegeoip.app/json                    /Error: Cannot get ip.?apikey='']"
proof -
  have "ip_reply network_no_ip = Raises ConnectionError"
    by (simp add: network_no_ip_def)
  moreover have "get_ip (ip_reply network_ip_malformed) = Inr ''Error: Cannot get ip.''"
    by (simp add: network_ip_malformed_def get_ip_def json_def)
  ultimately show ?thesis
    using get_ip_catches_decode_and_key_errors_only [of _ ConnectionError network_no_ip]
      get_ip_catches_decode_and_key_errors_only [of _ ConnectionError network_ip_malformed]
    by simp
qed

subsection \<open>Weather: the temperature\<close>

lemma temperature_of_reading:
  assumes "extract_reading a obj = Inr r" and "main obj = Some m" and "temp m = Some t"
  shows "\<exists>kelvin. py_int t = Inr kelvin \<and> temperature2 r = str_int (kelvin - 273) @ degree_sign"
  using assms
  by (auto simp add: extract_reading_def subscript_def convert_kelvin_to_celsius_def
      split: sum.splits)

lemma poll_success_extract:
  assumes "snd (poll LAT LON net) = Inr r" and "weather_reply net = Text (Some obj)"
  shows "\<exists>a. extract_reading a obj = Inr r"
  using assms
  by (auto simp add: poll_def json_def split: sum.splits prod.splits)

lemma fahrenheit_300: "convert_kelvin_to_fahrenheit 300 = Inr (rd (403 / 5))"
  by code_simp

lemma float_of_int_27: "float_of_int (300 - 273) = Inr (Finite 27)"
  by code_simp

text \<open>
  C4. \<open>convert_kelvin_to_celsius\<close> subtracts 273, and 300 gives 27; a poll applies it to
  \<open>int\<close> of the temperature of the weather object, which truncates a float toward zero,
  and shows the result followed by the degree sign. \<open>convert_kelvin_to_fahrenheit\<close> is
  \<open>1.8 * (kelvin_temp - 273) + 32\<close> in float arithmetic, where \<open>1.8\<close> is the float nearest
  to 9/5: for a reading within \<open>2 ^ 53\<close> of 273 the result is a finite float that differs
  from the exact value of \<open>9/5 * (kelvin_temp - 273) + 32\<close> by at most
  \<open>(\<bar>kelvin_temp - 273\<bar> + 4) / 2 ^ 50\<close>, and 300 gives the float that the literal \<open>80.6\<close>
  denotes, the one nearest to 403/5.
\<close>

theorem kelvin_conversions:
  "convert_kelvin_to_celsius k = k - 273
   \<and> convert_kelvin_to_celsius 300 = 27
   \<and> py_int (JInt i) = Inr i
   \<and> py_int (JFloat (Finite q)) = Inr (if 0 \<le> q then \<lfloor>q\<rfloor> else \<lceil>q\<rceil>)
   \<and> (snd (poll LAT LON net) = Inr r \<and> weather_reply net = Text (Some obj)
        \<and> main obj = Some m \<and> temp m = Some t \<longrightarrow>
        (\<exists>kelvin. py_int t = Inr kelvin
           \<and> temperature2 r = str_int (convert_kelvin_to_celsius kelvin) @ degree_sign))
   \<and> (float_of_int (k - 273) = Inr d \<longrightarrow>
        convert_kelvin_to_fahrenheit k = Inr (fadd (fmul (rd (9 / 5)) d) (Finite 32)))
   \<and> (\<bar>k - 273\<bar> \<le> 2 ^ 53 \<longrightarrow>
        (\<exists>x. convert_kelvin_to_fahrenheit k = Inr (Finite x)
           \<and> \<bar>x - (9 / 5 * of_int (k - 273) + 32)\<bar> \<le> (of_int \<bar>k - 273\<bar> + 4) / 2 ^ 50))
   \<and> convert_kelvin_to_fahrenheit 300 = Inr (rd (403 / 5))"
proof (intro conjI impI)
  show "\<exists>x. convert_kelvin_to_fahrenheit k = Inr (Finite x)
           \<and> \<bar>x - (9 / 5 * of_int (k - 273) + 32)\<bar> \<le> (of_int \<bar>k - 273\<bar> + 4) / 2 ^ 50"
    if "\<bar>k - 273\<bar> \<le> 2 ^ 53"
    using that by (rule fahrenheit_accuracy)
  show "convert_kelvin_to_celsius k = k - 273" "convert_kelvin_to_celsius 300 = 27"
    by (simp_all add: convert_kelvin_to_celsius_def)
  show "py_int (JInt i) = Inr i"
    "py_int (JFloat (Finite q)) = Inr (if 0 \<le> q then \<lfloor>q\<rfloor> else \<lceil>q\<rceil>)"
    by (simp_all add: py_int_def)
  show "convert_kelvin_to_fahrenheit 300 = Inr (rd (403 / 5))"
    by (rule fahrenheit_300)
  show "convert_kelvin_to_fahrenheit k = Inr (fadd (fmul (rd (9 / 5)) d) (Finite 32))"
    if "float_of_int (k - 273) = Inr d"
    using that by (simp add: convert_kelvin_to_fahrenheit_def)
  show "\<exists>kelvin. py_int t = Inr kelvin
           \<and> temperature2 r = str_int (convert_kelvin_to_celsius kelvin) @ degree_sign"
    if "snd (poll LAT LON net) = Inr r \<and> weather_reply net = Text (Some obj)
        \<and> main obj = Some m \<and> temp m = Some t"
  proof -
    from that obtain a where "extract_reading a obj = Inr r"
      using poll_success_extract by blast
    with that show ?thesis
      using temperature_of_reading [of a obj r m t]
      by (simp add: convert_kelvin_to_celsius_def)
  qed
qed

theorem kelvin_conversions_witness:
  "snd (poll LATITUDE LONGITUDE (network_example ''01d'' ''Posadas''))
     = Inr (reading_example ''01d'' ''Posadas'')
   \<and> weather_reply (network_example ''01d'' ''Posadas'')
       = Text (Some (weather_obj_example ''01d'' ''Posadas''))
   \<and> main (weather_obj_example ''01d'' ''Posadas'')
       = Some \<lparr>temp = Some (JFloat (Finite (30099 / 100)))\<rparr>
   \<and> py_int (JFloat (Finite (30099 / 100))) = Inr 300
   \<and> temperature2 (reading_example ''01d'' ''Posadas'') = ''27'' @ degree_sign
   \<and> (\<exists>kelvin. py_int (JFloat (Finite (30099 / 100))) = Inr kelvin
        \<and> temperature2 (reading_example ''01d'' ''Posadas'')
            = str_int (convert_kelvin_to_celsius kelvin) @ degree_sign)
   \<and> float_of_int (300 - 273) = Inr (Finite 27)
   \<and> convert_kelvin_to_fahrenheit 300 = Inr (fadd (fmul (rd (9 / 5)) (Finite 27)) (Finite 32))
   \<and> \<bar>300 - 273 :: int\<bar> \<le> 2 ^ 53
   \<and> (\<exists>x. convert_kelvin_to_fahrenheit 300 = Inr (Finite x)
        \<and> \<bar>x - (9 / 5 * of_int (300 - 273) + 32)\<bar> \<le> (of_int \<bar>300 - 273\<bar> + 4) / 2 ^ 50)"
proof -
  note t = kelvin_conversions [of 300 0 0 LATITUDE LONGITUDE "network_example ''01d'' ''Posadas''"
        "reading_example ''01d'' ''Posadas''" "weather_obj_example ''01d'' ''Posadas''"
        "\<lparr>temp = Some (JFloat (Finite (30099 / 100)))\<rparr>" "JFloat (Finite (30099 / 100))"
        "Finite 27"]
  have w: "weather_reply (network_example ''01d'' ''Posadas'')
             = Text (Some (weather_obj_example ''01d'' ''Posadas''))"
    by (simp add: network_example_def)
  have m: "main (weather_obj_example ''01d'' ''Posadas'')
             = Some \<lparr>temp = Some (JFloat (Finite (30099 / 100)))\<rparr>"
    by (simp add: weather_obj_example_def)
  have p: "snd (poll LATITUDE LONGITUDE (network_example ''01d'' ''Posadas''))
     = Inr (reading_example ''01d'' ''Posadas'')"
    by (rule poll_example)
  have e: "\<exists>kelvin. py_int (JFloat (Finite (30099 / 100))) = Inr kelvin
        \<and> temperature2 (reading_example ''01d'' ''Posadas'')
            = str_int (convert_kelvin_to_celsius kelvin) @ degree_sign"
    using t [THEN conjunct2, THEN conjunct2, THEN conjunct2, THEN conjunct2, THEN conjunct1]
      p w m by simp
  have f: "convert_kelvin_to_fahrenheit 300
             = Inr (fadd (fmul (rd (9 / 5)) (Finite 27)) (Finite 32))"
    using t [THEN conjunct2, THEN conjunct2, THEN conjunct2, THEN conjunct2, THEN conjunct2,
        THEN conjunct1] float_of_int_27 by simp
  have b: "\<bar>300 - 273 :: int\<bar> \<le> 2 ^ 53"
    by simp
  have g: "\<exists>x. convert_kelvin_to_fahrenheit 300 = Inr (Finite x)
        \<and> \<bar>x - (9 / 5 * of_int (300 - 273) + 32)\<bar> \<le> (of_int \<bar>300 - 273\<bar> + 4) / 2 ^ 50"
    using t [THEN conjunct2, THEN conjunct2, THEN conjunct2, THEN conjunct2, THEN conjunct2,
        THEN conjunct2, THEN conjunct1] b by blast
  have "temperature2 (reading_example ''01d'' ''Posadas'') = ''27'' @ degree_sign"
    by (simp add: reading_example_def)
  with p w m e f g b py_int_example float_of_int_27 show ?thesis
    by blast
qed

end
